theory Spec2Isabelle
  imports Main "HOL-Library.Sublist" "HOL-Library.AList" "HOL-Library.Char_ord" "HOL-Library.List_Lexorder"
begin

section \<open>Strings and formatting\<close>

text \<open>
  Go strings are byte sequences; they are modelled as \<^typ>\<open>string\<close> (a list of 8-bit
  characters).  The non-ASCII runes the program prints are written as their UTF-8 bytes.
  A Go \<open>error\<close> is modelled by its message, so a result is \<open>string + 'a\<close> with
  \<open>Inl\<close> carrying the message, and a function returning only \<open>error\<close> returns
  \<open>string option\<close> (\<open>None\<close> for \<open>nil\<close>).
\<close>

definition arrow :: string where
  "arrow = [CHR 0xE2, CHR 0x86, CHR 0x92]"

definition check_mark :: string where
  "check_mark = [CHR 0xE2, CHR 0x9C, CHR 0x93]"

definition ballot_x :: string where
  "ballot_x = [CHR 0xE2, CHR 0x9C, CHR 0x97]"

definition digit_char :: "nat \<Rightarrow> char" where
  "digit_char d = ''0123456789'' ! d"

text \<open>The verb \<open>%d\<close> of \<open>fmt\<close> on a non-negative integer.\<close>

function show_nat :: "nat \<Rightarrow> string" where
  "show_nat n = (if n < 10 then [digit_char n] else show_nat (n div 10) @ [digit_char (n mod 10)])"
  by pat_completeness auto
termination
  by (relation "measure id") auto

declare show_nat.simps [simp del]

text \<open>
  ASCII lower-casing.  \<open>strings.EqualFold\<close> compares under Unicode simple case folding; the
  folding orbits of the letters \<open>p\<close> and \<open>i\<close> hold only their ASCII upper-case forms, so
  against the argument \<open>"pip"\<close> (the only use in the program) the comparison below is
  exact, byte for byte.
\<close>

definition to_lower :: "char \<Rightarrow> char" where
  "to_lower c =
     (case map_of (zip ''ABCDEFGHIJKLMNOPQRSTUVWXYZ'' ''abcdefghijklmnopqrstuvwxyz'') c of
        Some l \<Rightarrow> l
      | None \<Rightarrow> c)"

definition EqualFold :: "string \<Rightarrow> string \<Rightarrow> bool" where
  "EqualFold s t = (map to_lower s = map to_lower t)"

section \<open>pkg/rootio: request and response types\<close>

record Package =
  pkg_Name :: string
  pkg_Version :: string

record PatchInfo =
  pi_Name :: string
  pi_Version :: string

record PackagePatch =
  PackageName :: string
  Version :: string
  Patch :: PatchInfo
  PatchAlias :: PatchInfo
  CVEIDs :: "string list"

record SkippedPackage =
  sk_PackageName :: string
  sk_Reason :: string

record AnalyzePackagesResponse =
  Patches :: "PackagePatch list"
  Skipped :: "SkippedPackage list"

record InstalledPackage =
  inst_Name :: string
  inst_Version :: string
  inst_Location :: string

section \<open>pip: the application\<close>

text \<open>
  \<open>Service\<close> is the interface of \<open>pip/service.go\<close>.  Its methods run subprocesses of the
  Python environment; the environment is an abstract state \<open>'e\<close>.  \<open>ListPackages\<close> runs
  \<open>pip list\<close> and only reads it; the two apply methods return the error (if any) and the
  environment they leave behind.  \<open>AnalyzePackages\<close> of the interface \<open>APIClient\<close> is one
  HTTP exchange, a function of the request.
\<close>

record 'e Service =
  ListPackages :: "'e \<Rightarrow> string + InstalledPackage list"
  ApplyPatch :: "PackagePatch \<Rightarrow> 'e \<Rightarrow> string option \<times> 'e"
  ApplyPatchForPip :: "PackagePatch \<Rightarrow> 'e \<Rightarrow> string option \<times> 'e"

type_synonym APIClient = "Package list \<Rightarrow> string + AnalyzePackagesResponse"

record 'e pip_App =
  dryRun :: bool
  useAlias :: bool
  pipService :: "'e Service"
  apiClient :: APIClient
  reporter_pkgURL :: string

text \<open>
  What a run can be observed to do: the calls it makes on the injected services and on the
  file system, in order, the texts it prints on standard output (one entry for each
  \<open>Printf\<close>/\<open>Println\<close>), and the environment it leaves behind (the Python
  environment for pip, the file system for npm and Maven).  Debug logging through \<open>slog\<close>
  is not part of the model.
\<close>

datatype call =
    Call_ListPackages
  | Call_AnalyzePackages "Package list"
  | Call_ApplyPatch PackagePatch
  | Call_ApplyPatchForPip PackagePatch
  | Call_Parse string
  | Call_Update string "(string \<times> string) list"
  | Call_Validate string
  | Call_Stat string
  | Call_ReadFile string
  | Call_WriteFile string string

record 'e world =
  env :: 'e
  calls :: "call list"
  stdout :: "string list"

definition print :: "string \<Rightarrow> 'e world \<Rightarrow> 'e world" where
  "print s w = w\<lparr>stdout := stdout w @ [s]\<rparr>"

definition log_call :: "call \<Rightarrow> 'e world \<Rightarrow> 'e world" where
  "log_call c w = w\<lparr>calls := calls w @ [c]\<rparr>"

text \<open>
  The branch of \<open>applyPatches\<close> that picks the service method for one patch: the
  upgrade of \<open>ApplyPatchForPip\<close>, or the uninstall followed by install of \<open>ApplyPatch\<close>.
\<close>

datatype apply_method = Upgrade | Uninstall_Install

definition route :: "PackagePatch \<Rightarrow> apply_method" where
  "route patch = (if EqualFold (PackageName patch) ''pip'' then Upgrade else Uninstall_Install)"

definition invoke :: "'e Service \<Rightarrow> apply_method \<Rightarrow> PackagePatch \<Rightarrow> 'e \<Rightarrow> string option \<times> 'e" where
  "invoke s m patch e = (case m of Upgrade \<Rightarrow> ApplyPatchForPip s patch e | Uninstall_Install \<Rightarrow> ApplyPatch s patch e)"

definition call_event :: "apply_method \<Rightarrow> PackagePatch \<Rightarrow> call" where
  "call_event m patch = (case m of Upgrade \<Rightarrow> Call_ApplyPatchForPip patch | Uninstall_Install \<Rightarrow> Call_ApplyPatch patch)"

definition apply_one :: "'e pip_App \<Rightarrow> PackagePatch \<Rightarrow> 'e world \<Rightarrow> string option \<times> 'e world" where
  "apply_one a patch w =
     (case invoke (pipService a) (route patch) patch (env w) of
        (err, e') \<Rightarrow> (err, w\<lparr>env := e', calls := calls w @ [call_event (route patch) patch]\<rparr>))"

definition progress_line :: "nat \<Rightarrow> nat \<Rightarrow> PackagePatch \<Rightarrow> string \<Rightarrow> string" where
  "progress_line i n patch patchVersion =
     ''['' @ show_nat i @ ''/'' @ show_nat n @ ''] Patching '' @ PackageName patch @
     '' ('' @ Version patch @ '' '' @ arrow @ '' '' @ patchVersion @ '')...'' @ [CHR 0x0A]"

definition failure_line :: "string \<Rightarrow> string" where
  "failure_line err = ballot_x @ '' Patch failed: '' @ err @ [CHR 0x0A]"

definition success_line :: "PackagePatch \<Rightarrow> string" where
  "success_line patch =
     ''  '' @ check_mark @ '' Successfully patched '' @ PackageName patch @ [CHR 0x0A, CHR 0x0A]"

definition selected_version :: "'e pip_App \<Rightarrow> PackagePatch \<Rightarrow> string" where
  "selected_version a patch =
     (if useAlias a then pi_Version (PatchAlias patch) else pi_Version (Patch patch))"

text \<open>
  The loop \<open>for i, patch := range patches\<close> of \<open>applyPatches\<close>; \<open>i\<close> is the index of the
  head of the remaining list and \<open>n\<close> is \<open>len(patches)\<close>.
\<close>

fun pip_applyPatches_from :: "'e pip_App \<Rightarrow> nat \<Rightarrow> nat \<Rightarrow> PackagePatch list \<Rightarrow> 'e world
    \<Rightarrow> string option \<times> 'e world" where
  "pip_applyPatches_from a i n [] w = (None, w)"
| "pip_applyPatches_from a i n (patch # rest) w =
     (let w1 = print (progress_line (i + 1) n patch (selected_version a patch)) w in
      case apply_one a patch w1 of
        (Some err, w2) \<Rightarrow> (Some (''patch failed: '' @ err), print (failure_line err) w2)
      | (None, w2) \<Rightarrow> pip_applyPatches_from a (i + 1) n rest (print (success_line patch) w2))"

definition pip_applyPatches :: "'e pip_App \<Rightarrow> PackagePatch list \<Rightarrow> 'e world
    \<Rightarrow> string option \<times> 'e world" where
  "pip_applyPatches a patches w = pip_applyPatches_from a 0 (length patches) patches w"

subsection \<open>The dry-run report of \<open>common.Reporter\<close>\<close>

text \<open>
  \<open>url.Parse\<close> of the standard library is a parameter: it gives the scheme and the host
  of the package URL, or fails.  \<open>show_list\<close> is the verb \<open>%v\<close> on a slice of strings.
\<close>

type_synonym url_Parse = "string \<Rightarrow> (string \<times> string) option"

fun join :: "string \<Rightarrow> string list \<Rightarrow> string" where
  "join sep [] = []"
| "join sep [x] = x"
| "join sep (x # y # ys) = x @ sep @ join sep (y # ys)"

definition show_list :: "string list \<Rightarrow> string" where
  "show_list xs = ''['' @ join '' '' xs @ '']''"

definition indexURLTemplate :: "url_Parse \<Rightarrow> string \<Rightarrow> string" where
  "indexURLTemplate parse pkgURL =
     (case parse pkgURL of
        None \<Rightarrow> pkgURL @ ''/pypi/simple/''
      | Some (scheme, host) \<Rightarrow> scheme @ ''://root:<your_api_key>@'' @ host @ ''/pypi/simple/'')"

definition report_patch :: "string \<Rightarrow> bool \<Rightarrow> nat \<times> PackagePatch \<Rightarrow> string list" where
  "report_patch template alias ip =
     (case ip of (i, patch) \<Rightarrow>
        let patchInfo = (if alias then PatchAlias patch else Patch patch);
            patchType = (if alias then ''Aliased'' else ''Non-Aliased'')
        in [show_nat (i + 1) @ ''. Package: '' @ PackageName patch @ '' @ '' @ Version patch @ [CHR 0x0A],
            ''   Patch ('' @ patchType @ ''): '' @ pi_Name patchInfo @ '' @ '' @ pi_Version patchInfo @ [CHR 0x0A],
            ''   CVEs Fixed: '' @ show_list (CVEIDs patch) @ [CHR 0x0A],
            ''   Commands:'' @ [CHR 0x0A],
            ''     pip uninstall -y '' @ PackageName patch @ [CHR 0x0A],
            ''     pip install --no-deps --index-url '' @ template @ '' '' @ pi_Name patchInfo @
              ''=='' @ pi_Version patchInfo @ [CHR 0x0A, CHR 0x0A]])"

definition ReportDryRun :: "url_Parse \<Rightarrow> string \<Rightarrow> PackagePatch list \<Rightarrow> bool \<Rightarrow> string list" where
  "ReportDryRun parse pkgURL patches alias =
     [[CHR 0x0A] @ ''=== DRY-RUN MODE ==='' @ [CHR 0x0A],
      ''The following operations would be performed:'' @ [CHR 0x0A],
      [CHR 0x0A]] @
     concat (map (report_patch (indexURLTemplate parse pkgURL) alias) (enumerate 0 patches)) @
     [''To apply these patches, run with --dry-run=false'' @ [CHR 0x0A],
      (if alias
       then ''To use original package names instead of aliases, add --use-alias=false''
       else ''To use aliased package names (recommended), add --use-alias=true'') @ [CHR 0x0A]]"

definition print_all :: "string list \<Rightarrow> 'e world \<Rightarrow> 'e world" where
  "print_all ss w = w\<lparr>stdout := stdout w @ ss\<rparr>"

subsection \<open>\<open>App.Run\<close> of pip\<close>

definition to_sdk_installed :: "InstalledPackage \<Rightarrow> Package" where
  "to_sdk_installed p = \<lparr>pkg_Name = inst_Name p, pkg_Version = inst_Version p\<rparr>"

definition no_patches_line :: string where
  "no_patches_line = [CHR 0x0A] @ ''No patches needed - all packages are up to date!'' @ [CHR 0x0A]"

definition pip_Run :: "url_Parse \<Rightarrow> 'e pip_App \<Rightarrow> 'e world \<Rightarrow> string option \<times> 'e world" where
  "pip_Run parse a w =
     (let w1 = log_call Call_ListPackages w in
      case ListPackages (pipService a) (env w1) of
        Inl err \<Rightarrow> (Some (''failed to collect packages: '' @ err), w1)
      | Inr packages \<Rightarrow>
          let sdkPackages = map to_sdk_installed packages;
              w2 = log_call (Call_AnalyzePackages sdkPackages) w1
          in (case apiClient a sdkPackages of
               Inl err \<Rightarrow> (Some (''failed to analyze packages: '' @ err), w2)
             | Inr response \<Rightarrow>
                 if length (Patches response) = 0 then (None, print no_patches_line w2)
                 else if dryRun a
                 then (None, print_all (ReportDryRun parse (reporter_pkgURL a) (Patches response) (useAlias a)) w2)
                 else
                   let w3 = print ([CHR 0x0A] @ ''Applying '' @ show_nat (length (Patches response)) @
                                   '' patches...'' @ [CHR 0x0A, CHR 0x0A]) w2
                   in (case pip_applyPatches a (Patches response) w3 of
                         (Some err, w4) \<Rightarrow> (Some err, w4)
                       | (None, w4) \<Rightarrow>
                           (None, print ([CHR 0x0A] @ check_mark @ '' Successfully patched '' @
                                         show_nat (length (Patches response)) @ '' packages!'' @ [CHR 0x0A]) w4))))"

subsection \<open>Properties of the sequential apply\<close>

text \<open>
  \<open>run_ok\<close> says that the patches of a list are all applied without error from a given
  environment, and gives the environment they leave; \<open>success_output\<close> is what the loop
  prints for them.
\<close>

fun run_ok :: "'e pip_App \<Rightarrow> PackagePatch list \<Rightarrow> 'e \<Rightarrow> 'e option" where
  "run_ok a [] e = Some e"
| "run_ok a (p # ps) e =
     (case invoke (pipService a) (route p) p e of
        (None, e') \<Rightarrow> run_ok a ps e'
      | (Some err, e') \<Rightarrow> None)"

definition success_output :: "'e pip_App \<Rightarrow> nat \<Rightarrow> nat \<Rightarrow> PackagePatch list \<Rightarrow> string list" where
  "success_output a i n ps =
     concat (map (\<lambda>(j, q). [progress_line (j + 1) n q (selected_version a q), success_line q])
                 (enumerate i ps))"

lemma pip_applyPatches_from_failure:
  "run_ok a ps (env w) = Some e1 \<Longrightarrow> invoke (pipService a) (route p) p e1 = (Some err, e2) \<Longrightarrow>
   pip_applyPatches_from a i n (ps @ p # qs) w =
     (Some (''patch failed: '' @ err),
      w\<lparr>env := e2,
        calls := calls w @ map (\<lambda>q. call_event (route q) q) (ps @ [p]),
        stdout := stdout w @ success_output a i n ps @
          [progress_line (i + length ps + 1) n p (selected_version a p), failure_line err]\<rparr>)"
proof (induction ps arbitrary: w i)
  case Nil
  then show ?case by (simp add: apply_one_def print_def success_output_def)
next
  case (Cons q ps)
  then show ?case
    by (auto simp: apply_one_def print_def success_output_def split: prod.splits option.splits)
qed

lemma pip_applyPatches_from_trace:
  "pip_applyPatches_from a i n ps w = (r, w') \<Longrightarrow>
   \<exists>k\<le>length ps. calls w' = calls w @ map (\<lambda>q. call_event (route q) q) (take k ps) \<and>
      env w' = fold (\<lambda>q e. snd (invoke (pipService a) (route q) q e)) (take k ps) (env w) \<and>
      (r = None \<longrightarrow> k = length ps)"
proof (induction ps arbitrary: w i)
  case Nil
  then show ?case by simp
next
  case (Cons q ps)
  obtain err e' where inv: "invoke (pipService a) (route q) q (env w) = (err, e')"
    by (cases "invoke (pipService a) (route q) q (env w)")
  show ?case
  proof (cases err)
    case None
    then obtain w2 where w2: "pip_applyPatches_from a (i + 1) n ps w2 = (r, w')"
      and c2: "calls w2 = calls w @ [call_event (route q) q]" and e2: "env w2 = e'"
      using Cons.prems inv by (auto simp: apply_one_def print_def)
    from Cons.IH[OF w2] obtain k where "k \<le> length ps"
      "calls w' = calls w2 @ map (\<lambda>q. call_event (route q) q) (take k ps)"
      "env w' = fold (\<lambda>q e. snd (invoke (pipService a) (route q) q e)) (take k ps) (env w2)"
      "r = None \<longrightarrow> k = length ps" by blast
    then show ?thesis using c2 e2 inv by (intro exI[of _ "Suc k"]) simp
  next
    case (Some msg)
    then show ?thesis using Cons.prems inv
      by (intro exI[of _ "Suc 0"]) (auto simp: apply_one_def print_def)
  qed
qed

subsection \<open>A test double for the pip service\<close>

text \<open>
  In the manner of \<open>MockPipService\<close> of the tests: the environment counts the changes made
  to it; installing the package named \<open>bad\<close> fails.
\<close>

definition ex_service :: "nat Service" where
  "ex_service = \<lparr>ListPackages = (\<lambda>e. Inr [\<lparr>inst_Name = ''django'', inst_Version = ''4.0.0'', inst_Location = []\<rparr>]),
     ApplyPatch = (\<lambda>p e. if PackageName p = ''bad'' then (Some ''boom'', e) else (None, e + 1)),
     ApplyPatchForPip = (\<lambda>p e. (None, e + 10))\<rparr>"

definition ex_patch :: "string \<Rightarrow> PackagePatch" where
  "ex_patch n = \<lparr>PackageName = n, Version = ''1.0'', Patch = \<lparr>pi_Name = n, pi_Version = ''1.1''\<rparr>,
      PatchAlias = \<lparr>pi_Name = ''rootio-'' @ n, pi_Version = ''1.1''\<rparr>, CVEIDs = []\<rparr>"

definition ex_pip_app :: "bool \<Rightarrow> bool \<Rightarrow> APIClient \<Rightarrow> nat pip_App" where
  "ex_pip_app dry alias api = \<lparr>dryRun = dry, useAlias = alias, pipService = ex_service,
     apiClient = api, reporter_pkgURL = ''https://pkg.root.io''\<rparr>"

definition ex_world :: "'e \<Rightarrow> 'e world" where
  "ex_world e = \<lparr>env = e, calls = [], stdout = []\<rparr>"

lemmas ex_defs = ex_service_def ex_patch_def ex_pip_app_def ex_world_def route_def invoke_def
  EqualFold_def to_lower_def call_event_def

text \<open>
  Claim C8.  In a pip apply run over the patches \<open>ps @ p # qs\<close> (so \<open>p\<close> is patch
  \<open>k = length ps + 1\<close> of \<open>N = length ps + 1 + length qs\<close>), if the patches of \<open>ps\<close> are
  applied without error and applying \<open>p\<close> fails with \<open>err\<close>, then the run returns the error
  \<open>patch failed: err\<close>; the service was called for the patches of \<open>ps\<close> and for \<open>p\<close>, in
  order, and for none of \<open>qs\<close>; the environment is the one left by these calls (nothing is
  undone); and the last two texts printed are the progress line \<open>[k/N] Patching\<close> with the
  package name of \<open>p\<close> and the line \<open>Patch failed: err\<close>.
\<close>

theorem pip_apply_stops_at_first_failure:
  assumes "run_ok a ps (env w) = Some e1"
    and "invoke (pipService a) (route p) p e1 = (Some err, e2)"
  shows "pip_applyPatches a (ps @ p # qs) w =
     (Some (''patch failed: '' @ err),
      w\<lparr>env := e2,
        calls := calls w @ map (\<lambda>q. call_event (route q) q) (ps @ [p]),
        stdout := stdout w @ success_output a 0 (length ps + 1 + length qs) ps @
          [progress_line (length ps + 1) (length ps + 1 + length qs) p (selected_version a p),
           failure_line err]\<rparr>)"
  using pip_applyPatches_from_failure[OF assms, of 0 "length ps + 1 + length qs" qs]
  by (simp add: pip_applyPatches_def)

theorem pip_apply_stops_at_first_failure_witness:
  "pip_applyPatches (ex_pip_app False True (\<lambda>ps. Inl []))
      [ex_patch ''django'', ex_patch ''bad'', ex_patch ''flask''] (ex_world 0) =
     (Some ''patch failed: boom'',
      \<lparr>env = 1,
       calls = [Call_ApplyPatch (ex_patch ''django''), Call_ApplyPatch (ex_patch ''bad'')],
       stdout = [''[1/3] Patching django (1.0 '' @ arrow @ '' 1.1)...'' @ [CHR 0x0A],
                 ''  '' @ check_mark @ '' Successfully patched django'' @ [CHR 0x0A, CHR 0x0A],
                 ''[2/3] Patching bad (1.0 '' @ arrow @ '' 1.1)...'' @ [CHR 0x0A],
                 ballot_x @ '' Patch failed: boom'' @ [CHR 0x0A]]\<rparr>)"
proof -
  have ok: "run_ok (ex_pip_app False True (\<lambda>ps. Inl [])) [ex_patch ''django''] (env (ex_world 0)) = Some 1"
    by (simp add: ex_defs)
  have bad: "invoke (pipService (ex_pip_app False True (\<lambda>ps. Inl []))) (route (ex_patch ''bad''))
      (ex_patch ''bad'') 1 = (Some ''boom'', 1)"
    by (simp add: ex_defs)
  show ?thesis
    using pip_apply_stops_at_first_failure[OF ok bad, of "[ex_patch ''flask'']"]
    by (simp add: ex_defs success_output_def progress_line_def success_line_def failure_line_def
        selected_version_def show_nat.simps digit_char_def)
qed

text \<open>
  Claim C9.  Whatever the flag \<open>useAlias\<close> of the application, a pip apply run reaches the
  first \<open>k\<close> patches of the list, in order (all of them when it ends without error), and
  for each of them it calls one method of the service: \<open>ApplyPatchForPip\<close> (the upgrade)
  when the package name equals \<open>pip\<close> up to case, \<open>ApplyPatch\<close> (uninstall, then install)
  otherwise.  The environment the run leaves is the one these calls produce, one after the
  other, from the environment it started in; so a patch of pip is applied by
  \<open>ApplyPatchForPip\<close> and is not applied by \<open>ApplyPatch\<close>.
\<close>

theorem pip_package_routes_to_upgrade:
  assumes "pip_applyPatches a patches w = (r, w')"
  shows "\<exists>k\<le>length patches. (r = None \<longrightarrow> k = length patches) \<and>
           calls w' = calls w @
             map (\<lambda>q. if EqualFold (PackageName q) ''pip'' then Call_ApplyPatchForPip q else Call_ApplyPatch q)
               (take k patches) \<and>
           env w' =
             fold (\<lambda>q e. snd (if EqualFold (PackageName q) ''pip'' then ApplyPatchForPip (pipService a) q e
                              else ApplyPatch (pipService a) q e))
               (take k patches) (env w)"
proof -
  have c: "call_event (route q) q =
      (if EqualFold (PackageName q) ''pip'' then Call_ApplyPatchForPip q else Call_ApplyPatch q)" for q
    by (simp add: call_event_def route_def)
  have i: "invoke (pipService a) (route q) q e =
      (if EqualFold (PackageName q) ''pip'' then ApplyPatchForPip (pipService a) q e
       else ApplyPatch (pipService a) q e)" for q e
    by (simp add: invoke_def route_def)
  from pip_applyPatches_from_trace[OF assms[unfolded pip_applyPatches_def]]
  show ?thesis unfolding c i by blast
qed

theorem pip_package_routes_to_upgrade_witness:
  "pip_applyPatches (ex_pip_app False False (\<lambda>ps. Inl []))
      [ex_patch ''django'', ex_patch ''PiP''] (ex_world 0) =
     (None,
      \<lparr>env = 11,
       calls = [Call_ApplyPatch (ex_patch ''django''), Call_ApplyPatchForPip (ex_patch ''PiP'')],
       stdout = [''[1/2] Patching django (1.0 '' @ arrow @ '' 1.1)...'' @ [CHR 0x0A],
                 ''  '' @ check_mark @ '' Successfully patched django'' @ [CHR 0x0A, CHR 0x0A],
                 ''[2/2] Patching PiP (1.0 '' @ arrow @ '' 1.1)...'' @ [CHR 0x0A],
                 ''  '' @ check_mark @ '' Successfully patched PiP'' @ [CHR 0x0A, CHR 0x0A]]\<rparr>)"
proof -
  let ?a = "ex_pip_app False False (\<lambda>ps. Inl [])"
  let ?ps = "[ex_patch ''django'', ex_patch ''PiP'']"
  let ?run = "pip_applyPatches ?a ?ps (ex_world 0)"
  have run: "?run = (fst ?run, snd ?run)" by simp
  have r: "fst ?run = None"
    by (simp add: pip_applyPatches_def apply_one_def print_def ex_defs)
  have out: "stdout (snd ?run) =
      [''[1/2] Patching django (1.0 '' @ arrow @ '' 1.1)...'' @ [CHR 0x0A],
       ''  '' @ check_mark @ '' Successfully patched django'' @ [CHR 0x0A, CHR 0x0A],
       ''[2/2] Patching PiP (1.0 '' @ arrow @ '' 1.1)...'' @ [CHR 0x0A],
       ''  '' @ check_mark @ '' Successfully patched PiP'' @ [CHR 0x0A, CHR 0x0A]]"
    by (simp add: pip_applyPatches_def apply_one_def print_def ex_defs progress_line_def
        success_line_def selected_version_def show_nat.simps digit_char_def)
  from pip_package_routes_to_upgrade[OF run] r
  have "calls (snd ?run) = calls (ex_world (0::nat)) @
          map (\<lambda>q. if EqualFold (PackageName q) ''pip'' then Call_ApplyPatchForPip q else Call_ApplyPatch q) ?ps"
    and "env (snd ?run) =
          fold (\<lambda>q e. snd (if EqualFold (PackageName q) ''pip'' then ApplyPatchForPip (pipService ?a) q e
                           else ApplyPatch (pipService ?a) q e)) ?ps (env (ex_world (0::nat)))"
    by auto
  then have "calls (snd ?run) = [Call_ApplyPatch (ex_patch ''django''), Call_ApplyPatchForPip (ex_patch ''PiP'')]"
    and "env (snd ?run) = 11"
    by (simp_all add: ex_defs)
  with r out have "?run = (None, \<lparr>env = 11,
       calls = [Call_ApplyPatch (ex_patch ''django''), Call_ApplyPatchForPip (ex_patch ''PiP'')],
       stdout = [''[1/2] Patching django (1.0 '' @ arrow @ '' 1.1)...'' @ [CHR 0x0A],
                 ''  '' @ check_mark @ '' Successfully patched django'' @ [CHR 0x0A, CHR 0x0A],
                 ''[2/2] Patching PiP (1.0 '' @ arrow @ '' 1.1)...'' @ [CHR 0x0A],
                 ''  '' @ check_mark @ '' Successfully patched PiP'' @ [CHR 0x0A, CHR 0x0A]]\<rparr>)"
    by (cases ?run) auto
  then show ?thesis .
qed

section \<open>The file system\<close>

text \<open>
  A path given to \<open>os\<close> names a file: \<open>file_of\<close> is the resolution of a path by the
  operating system at the time of the run (the working directory, \<open>.\<close> and \<open>..\<close>, links),
  so two spellings of one path are one file.  The contents are kept for each file.
  \<open>os.Stat\<close> succeeds on the paths of the files that exist; reading an existing file and
  writing a file can still fail, with the error recorded for the file.  A write replaces
  the content of the file and leaves the resolution of paths as it is.
\<close>

record fs =
  file_of :: "string \<Rightarrow> string"
  files :: "string \<rightharpoonup> string"
  read_errors :: "string \<rightharpoonup> string"
  write_errors :: "string \<rightharpoonup> string"

definition Stat :: "string \<Rightarrow> fs \<Rightarrow> bool" where
  "Stat path f = (files f (file_of f path) \<noteq> None)"

definition ReadFile :: "string \<Rightarrow> fs \<Rightarrow> string + string" where
  "ReadFile path f =
     (case files f (file_of f path) of
        None \<Rightarrow> Inl (''open '' @ path @ '': no such file or directory'')
      | Some content \<Rightarrow>
          (case read_errors f (file_of f path) of Some err \<Rightarrow> Inl err | None \<Rightarrow> Inr content))"

definition WriteFile :: "string \<Rightarrow> string \<Rightarrow> fs \<Rightarrow> string option \<times> fs" where
  "WriteFile path content f =
     (case write_errors f (file_of f path) of
        Some err \<Rightarrow> (Some err, f)
      | None \<Rightarrow> (None, f\<lparr>files := (files f)(file_of f path \<mapsto> content)\<rparr>))"

section \<open>common: ecosystems, package information and the parser interface\<close>

datatype Ecosystem = EcosystemPyPI | EcosystemNpm | EcosystemMaven

fun ecosystem_string :: "Ecosystem \<Rightarrow> string" where
  "ecosystem_string EcosystemPyPI = ''pypi''"
| "ecosystem_string EcosystemNpm = ''npm''"
| "ecosystem_string EcosystemMaven = ''maven''"

record PackageInfo =
  info_Name :: string
  info_Version :: string
  info_VersionConstraint :: string
  info_Ecosystem :: Ecosystem
  info_Direct :: bool
  info_Dev :: bool
  info_Location :: string

text \<open>
  The methods of the interface \<open>Parser\<close> that the applications call.  A Go
  \<open>map[string]string\<close> of updates is an association list with one entry for each key.  The
  methods read the file system and return a value: \<open>Update\<close> returns the new content, it
  does not write it.
\<close>

record Parser =
  Parse :: "fs \<Rightarrow> string \<Rightarrow> string + PackageInfo list"
  Update :: "fs \<Rightarrow> string \<Rightarrow> (string \<times> string) list \<Rightarrow> string + string"
  Validate :: "string \<Rightarrow> bool"

definition to_sdk :: "PackageInfo \<Rightarrow> Package" where
  "to_sdk p = \<lparr>pkg_Name = info_Name p, pkg_Version = info_Version p\<rparr>"

definition dry_run_banner :: string where
  "dry_run_banner = [CHR 0x0A] @ ''=== DRY-RUN MODE ==='' @ [CHR 0x0A]"

section \<open>Maven: the application\<close>

record maven_App =
  m_apiKey :: string
  m_apiURL :: string
  m_filePath :: string
  m_dryRun :: bool
  m_parser :: Parser
  m_apiClient :: APIClient

definition maven_report_patch :: "nat \<times> PackagePatch \<Rightarrow> string list" where
  "maven_report_patch ip =
     (case ip of (i, patch) \<Rightarrow>
        [show_nat (i + 1) @ ''. Package: '' @ PackageName patch @ [CHR 0x0A],
         ''   Current version: '' @ Version patch @ [CHR 0x0A],
         ''   Patched version: '' @ pi_Version (Patch patch) @ [CHR 0x0A]] @
        (if length (CVEIDs patch) > 0
         then [''   CVEs Fixed: '' @ show_list (CVEIDs patch) @ [CHR 0x0A]] else []) @
        [[CHR 0x0A]])"

definition maven_reportDryRun :: "maven_App \<Rightarrow> PackagePatch list \<Rightarrow> string list" where
  "maven_reportDryRun a patches =
     [dry_run_banner,
      ''The following packages in '' @ m_filePath a @ '' would be updated:'' @ [CHR 0x0A, CHR 0x0A]] @
     concat (map maven_report_patch (enumerate 0 patches)) @
     [''To apply these patches:'' @ [CHR 0x0A],
      ''  1. Run: DRY_RUN=false rootio_patcher maven remediate'' @ [CHR 0x0A],
      ''  2. Then run: mvn clean install'' @ [CHR 0x0A]]"

definition maven_updates :: "PackagePatch list \<Rightarrow> (string \<times> string) list" where
  "maven_updates patches =
     fold (\<lambda>patch updates. AList.update (PackageName patch) (pi_Version (Patch patch)) updates) patches []"

definition maven_patch_line :: "PackagePatch \<Rightarrow> string" where
  "maven_patch_line patch =
     ''  - '' @ PackageName patch @ '': '' @ Version patch @ '' '' @ arrow @ '' '' @
     pi_Version (Patch patch) @ [CHR 0x0A]"

definition maven_applyPatches :: "maven_App \<Rightarrow> PackagePatch list \<Rightarrow> fs world \<Rightarrow> string option \<times> fs world" where
  "maven_applyPatches a patches w =
     (let updates = maven_updates patches;
          w1 = print_all (map maven_patch_line patches) w;
          w2 = log_call (Call_Update (m_filePath a) updates) w1
      in case Update (m_parser a) (env w2) (m_filePath a) updates of
           Inl err \<Rightarrow> (Some (''failed to update file: '' @ err), w2)
         | Inr updatedContent \<Rightarrow>
             let w3 = log_call (Call_Validate updatedContent) w2
             in if \<not> Validate (m_parser a) updatedContent
                then (Some ''updated file content is invalid'', w3)
                else
                  let w4 = log_call (Call_WriteFile (m_filePath a) updatedContent) w3
                  in (case WriteFile (m_filePath a) updatedContent (env w4) of
                        (Some err, f') \<Rightarrow> (Some (''failed to write updated file: '' @ err), w4\<lparr>env := f'\<rparr>)
                      | (None, f') \<Rightarrow> (None, w4\<lparr>env := f'\<rparr>)))"

definition maven_Run :: "maven_App \<Rightarrow> fs world \<Rightarrow> string option \<times> fs world" where
  "maven_Run a w =
     (let w1 = log_call (Call_Stat (m_filePath a)) w
      in if \<not> Stat (m_filePath a) (env w1) then (Some (''file not found: '' @ m_filePath a), w1)
         else
           let w2 = log_call (Call_Parse (m_filePath a)) w1
           in (case Parse (m_parser a) (env w2) (m_filePath a) of
                 Inl err \<Rightarrow> (Some (''failed to parse '' @ m_filePath a @ '': '' @ err), w2)
               | Inr packages \<Rightarrow>
                   if length packages = 0
                   then (None, print ([CHR 0x0A] @ ''No packages found in pom.xml'' @ [CHR 0x0A]) w2)
                   else
                     let sdkPackages = map to_sdk packages;
                         w3 = log_call (Call_AnalyzePackages sdkPackages) w2
                     in (case m_apiClient a sdkPackages of
                           Inl err \<Rightarrow> (Some (''failed to analyze packages: '' @ err), w3)
                         | Inr response \<Rightarrow>
                             if length (Patches response) = 0 then (None, print no_patches_line w3)
                             else if m_dryRun a
                             then (None, print_all (maven_reportDryRun a (Patches response)) w3)
                             else
                               let w4 = print ([CHR 0x0A] @ ''Applying '' @ show_nat (length (Patches response)) @
                                               '' patches to '' @ m_filePath a @ ''...'' @ [CHR 0x0A, CHR 0x0A]) w3
                               in (case maven_applyPatches a (Patches response) w4 of
                                     (Some err, w5) \<Rightarrow> (Some err, w5)
                                   | (None, w5) \<Rightarrow>
                                       (None, print_all
                                          [[CHR 0x0A] @ check_mark @ '' Successfully updated '' @ m_filePath a @
                                             '' with '' @ show_nat (length (Patches response)) @ '' patches!'' @ [CHR 0x0A],
                                           [CHR 0x0A] @ ''Next steps:'' @ [CHR 0x0A],
                                           ''  1. Review the changes in your pom.xml'' @ [CHR 0x0A],
                                           ''  2. Run: mvn clean install'' @ [CHR 0x0A],
                                           ''  3. Test your application'' @ [CHR 0x0A]] w5)))))"

section \<open>JSON values\<close>

text \<open>
  A JSON document as a tree.  A number carries its literal; the members of an object are
  kept in a list and looked up by key.  The text syntax belongs to \<open>encoding/json\<close>: reading
  a text into a tree and printing a tree with indentation are parameters of the model,
  and each can fail with a message.
\<close>

datatype json =
    JNull
  | JBool bool
  | JNumber string
  | JString string
  | JArray "json list"
  | JObject "(string \<times> json) list"

record json_lib =
  Unmarshal :: "string \<Rightarrow> string + json"
  MarshalIndent :: "json \<Rightarrow> string + string"

definition json_of_string_map :: "(string \<times> string) list \<Rightarrow> json" where
  "json_of_string_map m = JObject (map (\<lambda>(k, v). (k, JString v)) m)"

section \<open>npm: the application\<close>

record npm_App =
  n_apiKey :: string
  n_apiURL :: string
  n_packageManager :: string
  n_lockFilePath :: string
  n_dryRun :: bool
  n_parser :: Parser
  n_apiClient :: APIClient

text \<open>
  \<open>NewAppWithServices\<close>: an argument that is an absolute path or contains the path
  separator is a lock file path, anything else is the name of a package manager.  On the
  platforms with separator \<open>/\<close> an absolute path begins with the separator.
\<close>

definition is_path :: "string \<Rightarrow> bool" where
  "is_path s = (prefix ''/'' s \<or> CHR ''/'' \<in> set s)"

definition npm_NewAppWithServices :: "string \<Rightarrow> string \<Rightarrow> string \<Rightarrow> bool \<Rightarrow> Parser \<Rightarrow> APIClient \<Rightarrow> npm_App" where
  "npm_NewAppWithServices apiKey apiURL packageManagerOrPath dry parser client =
     (if is_path packageManagerOrPath
      then \<lparr>n_apiKey = apiKey, n_apiURL = apiURL,
            n_packageManager =
              (if suffix ''yarn.lock'' packageManagerOrPath then ''yarn''
               else if suffix ''pnpm-lock.yaml'' packageManagerOrPath then ''pnpm''
               else ''npm''),
            n_lockFilePath = packageManagerOrPath,
            n_dryRun = dry, n_parser = parser, n_apiClient = client\<rparr>
      else \<lparr>n_apiKey = apiKey, n_apiURL = apiURL,
            n_packageManager = packageManagerOrPath,
            n_lockFilePath =
              (if packageManagerOrPath = ''npm'' then ''package-lock.json''
               else if packageManagerOrPath = ''yarn'' then ''yarn.lock''
               else if packageManagerOrPath = ''pnpm'' then ''pnpm-lock.yaml''
               else ''package-lock.json''),
            n_dryRun = dry, n_parser = parser, n_apiClient = client\<rparr>)"

definition getOverrideField :: "npm_App \<Rightarrow> string" where
  "getOverrideField a =
     (if n_packageManager a = ''yarn'' then ''resolutions''
      else if n_packageManager a = ''npm'' \<or> n_packageManager a = ''pnpm'' then ''overrides''
      else ''overrides'')"

definition npm_report_patch :: "nat \<times> PackagePatch \<Rightarrow> string list" where
  "npm_report_patch ip =
     (case ip of (i, patch) \<Rightarrow>
        [show_nat (i + 1) @ ''. Package: '' @ PackageName patch @ [CHR 0x0A],
         ''   Current version: '' @ Version patch @ [CHR 0x0A],
         ''   Aliased package: npm:'' @ pi_Name (PatchAlias patch) @ ''@'' @
           pi_Version (PatchAlias patch) @ [CHR 0x0A]] @
        (if length (CVEIDs patch) > 0
         then [''   CVEs Fixed: '' @ show_list (CVEIDs patch) @ [CHR 0x0A]] else []) @
        [[CHR 0x0A]])"

definition npm_reportDryRun :: "npm_App \<Rightarrow> PackagePatch list \<Rightarrow> string list" where
  "npm_reportDryRun a patches =
     [dry_run_banner,
      ''The following overrides would be added to package.json:'' @ [CHR 0x0A, CHR 0x0A]] @
     concat (map npm_report_patch (enumerate 0 patches)) @
     [(if n_packageManager a = ''pnpm''
       then ''These will be added to package.json under '' @ [CHR 0x22] @ ''pnpm.overrides'' @
            [CHR 0x22] @ '' field'' @ [CHR 0x0A, CHR 0x0A]
       else ''These will be added to package.json under '' @ [CHR 0x22] @ getOverrideField a @
            [CHR 0x22] @ '' field'' @ [CHR 0x0A, CHR 0x0A]),
      ''To apply these patches, run with --dry-run=false'' @ [CHR 0x0A],
      ''Then run: '' @ n_packageManager a @ '' install'' @ [CHR 0x0A]]"

text \<open>
  A run of the npm application ends without error, with an error, or in a run-time panic
  (the assignment to an entry of a nil map, when \<open>package.json\<close> holds \<open>null\<close>).
\<close>

datatype outcome = Done | Failed string | Panicked string

text \<open>
  \<open>json.Unmarshal\<close> into a \<open>map[string]interface{}\<close>: an object gives the map, \<open>null\<close>
  leaves the map nil (\<open>None\<close>), any other value is a type error.
\<close>

definition json_type_name :: "json \<Rightarrow> string" where
  "json_type_name v =
     (case v of JNull \<Rightarrow> ''null'' | JBool b \<Rightarrow> ''bool'' | JNumber n \<Rightarrow> ''number''
      | JString s \<Rightarrow> ''string'' | JArray xs \<Rightarrow> ''array'' | JObject ms \<Rightarrow> ''object'')"

definition unmarshal_map :: "json_lib \<Rightarrow> string \<Rightarrow> string + (string \<times> json) list option" where
  "unmarshal_map J content =
     (case Unmarshal J content of
        Inl err \<Rightarrow> Inl err
      | Inr (JObject ms) \<Rightarrow> Inr (Some ms)
      | Inr JNull \<Rightarrow> Inr None
      | Inr v \<Rightarrow> Inl (''json: cannot unmarshal '' @ json_type_name v @
                       '' into Go value of type map[string]interface {}''))"

text \<open>
  The assignments of \<open>updatePackageJSON\<close> on the decoded map.  For pnpm the map under
  \<open>pnpm\<close> is shared with the document, so the assignment of \<open>overrides\<close> to it shows in the
  document.
\<close>

definition set_overrides :: "npm_App \<Rightarrow> (string \<times> string) list \<Rightarrow> (string \<times> json) list \<Rightarrow> (string \<times> json) list" where
  "set_overrides a overrides pkgJSON =
     (if n_packageManager a = ''pnpm''
      then (case map_of pkgJSON ''pnpm'' of
              Some (JObject pnpmConfig) \<Rightarrow>
                AList.update ''pnpm'' (JObject (AList.update ''overrides'' (json_of_string_map overrides) pnpmConfig)) pkgJSON
            | _ \<Rightarrow>
                AList.update ''pnpm'' (JObject (AList.update ''overrides'' (json_of_string_map overrides) [])) pkgJSON)
      else AList.update (getOverrideField a) (json_of_string_map overrides) pkgJSON)"

definition updatePackageJSON :: "json_lib \<Rightarrow> npm_App \<Rightarrow> (string \<times> string) list \<Rightarrow> fs world \<Rightarrow> outcome \<times> fs world" where
  "updatePackageJSON J a overrides w =
     (let packageJSONPath = ''package.json'';
          w1 = log_call (Call_Stat packageJSONPath) w
      in if \<not> Stat packageJSONPath (env w1)
         then (Failed ''package.json not found in current directory'', w1)
         else
           let w2 = log_call (Call_ReadFile packageJSONPath) w1
           in (case ReadFile packageJSONPath (env w2) of
                 Inl err \<Rightarrow> (Failed (''failed to read package.json: '' @ err), w2)
               | Inr content \<Rightarrow>
                   (case unmarshal_map J content of
                      Inl err \<Rightarrow> (Failed (''failed to parse package.json: '' @ err), w2)
                    | Inr None \<Rightarrow> (Panicked ''assignment to entry in nil map'', w2)
                    | Inr (Some pkgJSON) \<Rightarrow>
                        (case MarshalIndent J (JObject (set_overrides a overrides pkgJSON)) of
                           Inl err \<Rightarrow> (Failed (''failed to marshal package.json: '' @ err), w2)
                         | Inr text \<Rightarrow>
                             let updatedContent = text @ [CHR 0x0A];
                                 w3 = log_call (Call_WriteFile packageJSONPath updatedContent) w2
                             in (case WriteFile packageJSONPath updatedContent (env w3) of
                                   (Some err, f') \<Rightarrow> (Failed (''failed to write package.json: '' @ err), w3\<lparr>env := f'\<rparr>)
                                 | (None, f') \<Rightarrow> (Done, w3\<lparr>env := f'\<rparr>))))))"

definition npm_override_value :: "PackagePatch \<Rightarrow> string" where
  "npm_override_value patch = ''npm:'' @ pi_Name (PatchAlias patch) @ ''@'' @ pi_Version (PatchAlias patch)"

definition npm_overrides :: "PackagePatch list \<Rightarrow> (string \<times> string) list" where
  "npm_overrides patches =
     fold (\<lambda>patch overrides. AList.update (PackageName patch) (npm_override_value patch) overrides) patches []"

definition npm_patch_line :: "PackagePatch \<Rightarrow> string" where
  "npm_patch_line patch =
     ''  - '' @ PackageName patch @ '': '' @ Version patch @ '' '' @ arrow @ '' '' @
     pi_Name (PatchAlias patch) @ ''@'' @ pi_Version (PatchAlias patch) @ [CHR 0x0A]"

definition npm_applyPatches :: "json_lib \<Rightarrow> npm_App \<Rightarrow> PackagePatch list \<Rightarrow> fs world \<Rightarrow> outcome \<times> fs world" where
  "npm_applyPatches J a patches w =
     (let overrides = npm_overrides patches;
          w1 = print_all (map npm_patch_line patches) w
      in case updatePackageJSON J a overrides w1 of
           (Failed err, w2) \<Rightarrow> (Failed (''failed to update package.json: '' @ err), w2)
         | (r, w2) \<Rightarrow> (r, w2))"

definition npm_Run :: "json_lib \<Rightarrow> npm_App \<Rightarrow> fs world \<Rightarrow> outcome \<times> fs world" where
  "npm_Run J a w =
     (let w1 = log_call (Call_Stat (n_lockFilePath a)) w
      in if \<not> Stat (n_lockFilePath a) (env w1)
         then (Failed (''lock file not found: '' @ n_lockFilePath a @ '' (package manager: '' @
                       n_packageManager a @ '')''), w1)
         else
           let w2 = log_call (Call_Parse (n_lockFilePath a)) w1
           in (case Parse (n_parser a) (env w2) (n_lockFilePath a) of
                 Inl err \<Rightarrow> (Failed (''failed to parse '' @ n_lockFilePath a @ '': '' @ err), w2)
               | Inr packages \<Rightarrow>
                   if length packages = 0
                   then (Done, print ([CHR 0x0A] @ ''No packages found in '' @ n_lockFilePath a @ [CHR 0x0A]) w2)
                   else
                     let sdkPackages = map to_sdk packages;
                         w3 = log_call (Call_AnalyzePackages sdkPackages) w2
                     in (case n_apiClient a sdkPackages of
                           Inl err \<Rightarrow> (Failed (''failed to analyze packages: '' @ err), w3)
                         | Inr response \<Rightarrow>
                             if length (Patches response) = 0 then (Done, print no_patches_line w3)
                             else if n_dryRun a
                             then (Done, print_all (npm_reportDryRun a (Patches response)) w3)
                             else
                               let w4 = print ([CHR 0x0A] @ ''Applying '' @ show_nat (length (Patches response)) @
                                               '' patches to package.json...'' @ [CHR 0x0A, CHR 0x0A]) w3
                               in (case npm_applyPatches J a (Patches response) w4 of
                                     (Done, w5) \<Rightarrow>
                                       (Done, print_all
                                          [[CHR 0x0A] @ check_mark @ '' Successfully updated package.json with '' @
                                             show_nat (length (Patches response)) @ '' overrides!'' @ [CHR 0x0A],
                                           [CHR 0x0A] @ ''Next steps:'' @ [CHR 0x0A],
                                           ''  1. Review the changes in package.json'' @ [CHR 0x0A],
                                           ''  2. Run: '' @ n_packageManager a @ '' install'' @ [CHR 0x0A],
                                           ''  3. Test your application'' @ [CHR 0x0A]] w5)
                                   | (r, w5) \<Rightarrow> (r, w5)))))"

section \<open>Properties of the applications\<close>

subsection \<open>Test doubles\<close>

text \<open>
  A parser, an API client and a file system in the manner of the mocks of the tests, and a
  double of \<open>encoding/json\<close> for the documents of the examples: it reads the empty
  object and \<open>null\<close>, and prints a tree with two spaces of indentation (members in list
  order, strings without escapes).
\<close>


definition ex_response :: AnalyzePackagesResponse where
  "ex_response = \<lparr>Patches = [ex_patch ''django''], Skipped = []\<rparr>"

definition ex_api :: APIClient where
  "ex_api pkgs = Inr ex_response"

definition ex_fs :: fs where
  "ex_fs = \<lparr>file_of = (\<lambda>path. path),
            files = [''pom.xml'' \<mapsto> ''<project/>'', ''package-lock.json'' \<mapsto> ''{}'', ''package.json'' \<mapsto> ''{}''],
            read_errors = Map.empty, write_errors = Map.empty\<rparr>"

definition ex_info :: PackageInfo where
  "ex_info = \<lparr>info_Name = ''django'', info_Version = ''1.0'', info_VersionConstraint = ''1.0'',
     info_Ecosystem = EcosystemNpm, info_Direct = True, info_Dev = False, info_Location = []\<rparr>"

definition ex_parser :: Parser where
  "ex_parser = \<lparr>Parse = (\<lambda>f path. Inr [ex_info]), Update = (\<lambda>f path updates. Inr ''updated''),
     Validate = (\<lambda>content. content \<noteq> [])\<rparr>"

definition ex_maven_app :: "bool \<Rightarrow> maven_App" where
  "ex_maven_app dry = \<lparr>m_apiKey = ''key'', m_apiURL = ''https://api.root.io'', m_filePath = ''pom.xml'',
     m_dryRun = dry, m_parser = ex_parser, m_apiClient = ex_api\<rparr>"

definition ex_npm_app :: "string \<Rightarrow> bool \<Rightarrow> npm_App" where
  "ex_npm_app pm dry = npm_NewAppWithServices ''key'' ''https://api.root.io'' pm dry ex_parser ex_api"

fun pad :: "nat \<Rightarrow> string" where
  "pad 0 = []"
| "pad (Suc n) = ''  '' @ pad n"

definition quoted :: "string \<Rightarrow> string" where
  "quoted s = [CHR 0x22] @ s @ [CHR 0x22]"

fun render :: "nat \<Rightarrow> json \<Rightarrow> string" where
  "render n JNull = ''null''"
| "render n (JBool b) = (if b then ''true'' else ''false'')"
| "render n (JNumber l) = l"
| "render n (JString s) = quoted s"
| "render n (JArray xs) =
     (if xs = [] then ''[]''
      else ''['' @ [CHR 0x0A] @ join ('','' @ [CHR 0x0A]) (map (\<lambda>x. pad (Suc n) @ render (Suc n) x) xs) @
           [CHR 0x0A] @ pad n @ '']'')"
| "render n (JObject ms) =
     (if ms = [] then ''{}''
      else ''{'' @ [CHR 0x0A] @
           join ('','' @ [CHR 0x0A]) (map (\<lambda>m. pad (Suc n) @ quoted (fst m) @ '': '' @ render (Suc n) (snd m)) ms) @
           [CHR 0x0A] @ pad n @ ''}'')"

definition ex_json_lib :: json_lib where
  "ex_json_lib = \<lparr>Unmarshal = (\<lambda>content. if content = ''{}'' then Inr (JObject [])
                      else if content = ''null'' then Inr JNull
                      else Inl ''invalid character''),
     MarshalIndent = (\<lambda>v. Inr (render 0 v))\<rparr>"


lemmas ex_app_defs = ex_response_def ex_api_def ex_fs_def ex_info_def ex_parser_def ex_maven_app_def
  ex_npm_app_def ex_json_lib_def npm_NewAppWithServices_def is_path_def

lemma world_simps [simp]:
  "env (log_call c w) = env w" "calls (log_call c w) = calls w @ [c]" "stdout (log_call c w) = stdout w"
  "env (print s w) = env w" "calls (print s w) = calls w" "stdout (print s w) = stdout w @ [s]"
  "env (print_all ss w) = env w" "calls (print_all ss w) = calls w" "stdout (print_all ss w) = stdout w @ ss"
  by (simp_all add: log_call_def print_def print_all_def)

subsection \<open>Dry run\<close>

text \<open>
  The calls of the apply side: the two apply methods of the pip service, \<open>Update\<close> and
  \<open>Validate\<close> of a parser, and the writing of a file.  A run leaves the world unchanged
  when the environment (the Python environment, or the file system) is the one it started
  from and none of the calls it made is of the apply side.  \<open>printed w w'\<close> is what a run
  from \<open>w\<close> to \<open>w'\<close> printed.
\<close>

fun apply_side :: "call \<Rightarrow> bool" where
  "apply_side (Call_ApplyPatch p) = True"
| "apply_side (Call_ApplyPatchForPip p) = True"
| "apply_side (Call_Update path updates) = True"
| "apply_side (Call_Validate content) = True"
| "apply_side (Call_WriteFile path content) = True"
| "apply_side c = False"

definition unchanged :: "'e world \<Rightarrow> 'e world \<Rightarrow> bool" where
  "unchanged w w' = (env w' = env w \<and> (\<exists>cs. calls w' = calls w @ cs \<and> \<not> list_ex apply_side cs))"

definition printed :: "'e world \<Rightarrow> 'e world \<Rightarrow> string list" where
  "printed w w' = drop (length (stdout w)) (stdout w')"

lemma report_line:
  assumes "i < length ps" and "l \<in> set (g (i, ps ! i))"
  shows "l \<in> set (concat (map g (enumerate 0 ps)))"
proof -
  have "(i, ps ! i) \<in> set (enumerate 0 ps)"
    using assms(1) by (simp add: in_set_enumerate_eq)
  with assms(2) show ?thesis by auto
qed

lemma pip_report_lines:
  assumes "i < length ps"
  shows "show_nat (i + 1) @ ''. Package: '' @ PackageName (ps ! i) @ '' @ '' @ Version (ps ! i) @ [CHR 0x0A]
           \<in> set (ReportDryRun parse url ps alias)"
    and "''   Patch ('' @ (if alias then ''Aliased'' else ''Non-Aliased'') @ ''): '' @
           pi_Name (if alias then PatchAlias (ps ! i) else Patch (ps ! i)) @ '' @ '' @
           pi_Version (if alias then PatchAlias (ps ! i) else Patch (ps ! i)) @ [CHR 0x0A]
           \<in> set (ReportDryRun parse url ps alias)"
proof -
  let ?g = "report_patch (indexURLTemplate parse url) alias"
  have 1: "show_nat (i + 1) @ ''. Package: '' @ PackageName (ps ! i) @ '' @ '' @ Version (ps ! i) @ [CHR 0x0A]
      \<in> set (?g (i, ps ! i))"
    by (simp add: report_patch_def Let_def)
  have 2: "''   Patch ('' @ (if alias then ''Aliased'' else ''Non-Aliased'') @ ''): '' @
           pi_Name (if alias then PatchAlias (ps ! i) else Patch (ps ! i)) @ '' @ '' @
           pi_Version (if alias then PatchAlias (ps ! i) else Patch (ps ! i)) @ [CHR 0x0A]
      \<in> set (?g (i, ps ! i))"
    by (simp add: report_patch_def Let_def)
  from report_line[where g = ?g, OF assms 1] show "show_nat (i + 1) @ ''. Package: '' @ PackageName (ps ! i) @ '' @ '' @
      Version (ps ! i) @ [CHR 0x0A] \<in> set (ReportDryRun parse url ps alias)"
    by (simp add: ReportDryRun_def)
  from report_line[where g = ?g, OF assms 2] show "''   Patch ('' @ (if alias then ''Aliased'' else ''Non-Aliased'') @ ''): '' @
           pi_Name (if alias then PatchAlias (ps ! i) else Patch (ps ! i)) @ '' @ '' @
           pi_Version (if alias then PatchAlias (ps ! i) else Patch (ps ! i)) @ [CHR 0x0A]
           \<in> set (ReportDryRun parse url ps alias)"
    by (simp add: ReportDryRun_def)
qed

lemma npm_report_lines:
  assumes "i < length ps"
  shows "show_nat (i + 1) @ ''. Package: '' @ PackageName (ps ! i) @ [CHR 0x0A] \<in> set (npm_reportDryRun a ps)"
    and "''   Current version: '' @ Version (ps ! i) @ [CHR 0x0A] \<in> set (npm_reportDryRun a ps)"
    and "''   Aliased package: npm:'' @ pi_Name (PatchAlias (ps ! i)) @ ''@'' @
           pi_Version (PatchAlias (ps ! i)) @ [CHR 0x0A] \<in> set (npm_reportDryRun a ps)"
proof -
  have 1: "show_nat (i + 1) @ ''. Package: '' @ PackageName (ps ! i) @ [CHR 0x0A] \<in> set (npm_report_patch (i, ps ! i))"
    and 2: "''   Current version: '' @ Version (ps ! i) @ [CHR 0x0A] \<in> set (npm_report_patch (i, ps ! i))"
    and 3: "''   Aliased package: npm:'' @ pi_Name (PatchAlias (ps ! i)) @ ''@'' @
           pi_Version (PatchAlias (ps ! i)) @ [CHR 0x0A] \<in> set (npm_report_patch (i, ps ! i))"
    by (simp_all add: npm_report_patch_def)
  from report_line[where g = npm_report_patch, OF assms 1]
  show "show_nat (i + 1) @ ''. Package: '' @ PackageName (ps ! i) @ [CHR 0x0A] \<in> set (npm_reportDryRun a ps)"
    by (simp add: npm_reportDryRun_def)
  from report_line[where g = npm_report_patch, OF assms 2]
  show "''   Current version: '' @ Version (ps ! i) @ [CHR 0x0A] \<in> set (npm_reportDryRun a ps)"
    by (simp add: npm_reportDryRun_def)
  from report_line[where g = npm_report_patch, OF assms 3]
  show "''   Aliased package: npm:'' @ pi_Name (PatchAlias (ps ! i)) @ ''@'' @
           pi_Version (PatchAlias (ps ! i)) @ [CHR 0x0A] \<in> set (npm_reportDryRun a ps)"
    by (simp add: npm_reportDryRun_def)
qed

lemma maven_report_lines:
  assumes "i < length ps"
  shows "show_nat (i + 1) @ ''. Package: '' @ PackageName (ps ! i) @ [CHR 0x0A] \<in> set (maven_reportDryRun a ps)"
    and "''   Current version: '' @ Version (ps ! i) @ [CHR 0x0A] \<in> set (maven_reportDryRun a ps)"
    and "''   Patched version: '' @ pi_Version (Patch (ps ! i)) @ [CHR 0x0A] \<in> set (maven_reportDryRun a ps)"
proof -
  have 1: "show_nat (i + 1) @ ''. Package: '' @ PackageName (ps ! i) @ [CHR 0x0A] \<in> set (maven_report_patch (i, ps ! i))"
    and 2: "''   Current version: '' @ Version (ps ! i) @ [CHR 0x0A] \<in> set (maven_report_patch (i, ps ! i))"
    and 3: "''   Patched version: '' @ pi_Version (Patch (ps ! i)) @ [CHR 0x0A] \<in> set (maven_report_patch (i, ps ! i))"
    by (simp_all add: maven_report_patch_def)
  from report_line[where g = maven_report_patch, OF assms 1]
  show "show_nat (i + 1) @ ''. Package: '' @ PackageName (ps ! i) @ [CHR 0x0A] \<in> set (maven_reportDryRun a ps)"
    by (simp add: maven_reportDryRun_def)
  from report_line[where g = maven_report_patch, OF assms 2]
  show "''   Current version: '' @ Version (ps ! i) @ [CHR 0x0A] \<in> set (maven_reportDryRun a ps)"
    by (simp add: maven_reportDryRun_def)
  from report_line[where g = maven_report_patch, OF assms 3]
  show "''   Patched version: '' @ pi_Version (Patch (ps ! i)) @ [CHR 0x0A] \<in> set (maven_reportDryRun a ps)"
    by (simp add: maven_reportDryRun_def)
qed

lemma pip_dry_run:
  assumes "dryRun a" and "pip_Run parse a w = (r, w')"
  shows "unchanged w w'"
    and "ListPackages (pipService a) (env w) = Inr pkgs \<Longrightarrow> apiClient a (map to_sdk_installed pkgs) = Inr resp \<Longrightarrow>
         r = None \<and> printed w w' =
           (if Patches resp = [] then [no_patches_line]
            else ReportDryRun parse (reporter_pkgURL a) (Patches resp) (useAlias a))"
  using assms
  by (auto simp: pip_Run_def unchanged_def printed_def log_call_def print_def print_all_def Let_def
      split: sum.splits if_splits)

lemma maven_dry_run:
  assumes "m_dryRun a" and "maven_Run a w = (r, w')"
  shows "unchanged w w'"
    and "Stat (m_filePath a) (env w) \<Longrightarrow> Parse (m_parser a) (env w) (m_filePath a) = Inr pkgs \<Longrightarrow> pkgs \<noteq> [] \<Longrightarrow>
         m_apiClient a (map to_sdk pkgs) = Inr resp \<Longrightarrow>
         r = None \<and> printed w w' =
           (if Patches resp = [] then [no_patches_line] else maven_reportDryRun a (Patches resp))"
  using assms
  by (auto simp: maven_Run_def unchanged_def printed_def log_call_def print_def print_all_def Let_def
      split: sum.splits if_splits)

lemma npm_dry_run:
  assumes "n_dryRun a" and "npm_Run J a w = (r, w')"
  shows "unchanged w w'"
    and "Stat (n_lockFilePath a) (env w) \<Longrightarrow> Parse (n_parser a) (env w) (n_lockFilePath a) = Inr pkgs \<Longrightarrow> pkgs \<noteq> [] \<Longrightarrow>
         n_apiClient a (map to_sdk pkgs) = Inr resp \<Longrightarrow>
         r = Done \<and> printed w w' =
           (if Patches resp = [] then [no_patches_line] else npm_reportDryRun a (Patches resp))"
  using assms
  by (auto simp: npm_Run_def unchanged_def printed_def log_call_def print_def print_all_def Let_def
      split: sum.splits if_splits)

text \<open>
  Claim C1.  With the dry-run flag set, a run of each of the three applications leaves the
  world unchanged: the environment is the same and no apply-side call is made (no manifest
  is written, no patch is applied), whatever the services return.  When the analysis call
  returns a response, the run ends without error and reports the patches: for an empty
  list it prints the notice that no patch is needed, and nothing else; otherwise it prints
  the dry-run banner first and, for patch number \<open>i\<close> of the list, the line
  \<open>i. Package:\<close> with the package name (for pip with the installed version too) and the
  lines that give the installed version and the patch: for pip the name and the version of
  the patch package that the flag \<open>useAlias\<close> selects, for npm the aliased package
  \<open>npm:<alias name>@<alias version>\<close>, for Maven the patched version.
\<close>

theorem dry_run_performs_no_mutation:
  "(dryRun pa \<and> pip_Run parse pa pw = (pr, pw') \<longrightarrow>
      unchanged pw pw' \<and>
      (\<forall>pkgs resp. ListPackages (pipService pa) (env pw) = Inr pkgs \<and>
          apiClient pa (map to_sdk_installed pkgs) = Inr resp \<longrightarrow>
          pr = None \<and>
          (Patches resp = [] \<longrightarrow> printed pw pw' = [no_patches_line]) \<and>
          (Patches resp \<noteq> [] \<longrightarrow> hd (printed pw pw') = dry_run_banner) \<and>
          (\<forall>i<length (Patches resp).
             show_nat (i + 1) @ ''. Package: '' @ PackageName (Patches resp ! i) @ '' @ '' @
               Version (Patches resp ! i) @ [CHR 0x0A] \<in> set (printed pw pw') \<and>
             ''   Patch ('' @ (if useAlias pa then ''Aliased'' else ''Non-Aliased'') @ ''): '' @
               pi_Name (if useAlias pa then PatchAlias (Patches resp ! i) else Patch (Patches resp ! i)) @
               '' @ '' @
               pi_Version (if useAlias pa then PatchAlias (Patches resp ! i) else Patch (Patches resp ! i)) @
               [CHR 0x0A] \<in> set (printed pw pw')))) \<and>
   (n_dryRun na \<and> npm_Run J na nw = (nr, nw') \<longrightarrow>
      unchanged nw nw' \<and>
      (\<forall>pkgs resp. Stat (n_lockFilePath na) (env nw) \<and>
          Parse (n_parser na) (env nw) (n_lockFilePath na) = Inr pkgs \<and> pkgs \<noteq> [] \<and>
          n_apiClient na (map to_sdk pkgs) = Inr resp \<longrightarrow>
          nr = Done \<and>
          (Patches resp = [] \<longrightarrow> printed nw nw' = [no_patches_line]) \<and>
          (Patches resp \<noteq> [] \<longrightarrow> hd (printed nw nw') = dry_run_banner) \<and>
          (\<forall>i<length (Patches resp).
             show_nat (i + 1) @ ''. Package: '' @ PackageName (Patches resp ! i) @ [CHR 0x0A]
               \<in> set (printed nw nw') \<and>
             ''   Current version: '' @ Version (Patches resp ! i) @ [CHR 0x0A] \<in> set (printed nw nw') \<and>
             ''   Aliased package: npm:'' @ pi_Name (PatchAlias (Patches resp ! i)) @ ''@'' @
               pi_Version (PatchAlias (Patches resp ! i)) @ [CHR 0x0A] \<in> set (printed nw nw')))) \<and>
   (m_dryRun ma \<and> maven_Run ma mw = (mr, mw') \<longrightarrow>
      unchanged mw mw' \<and>
      (\<forall>pkgs resp. Stat (m_filePath ma) (env mw) \<and>
          Parse (m_parser ma) (env mw) (m_filePath ma) = Inr pkgs \<and> pkgs \<noteq> [] \<and>
          m_apiClient ma (map to_sdk pkgs) = Inr resp \<longrightarrow>
          mr = None \<and>
          (Patches resp = [] \<longrightarrow> printed mw mw' = [no_patches_line]) \<and>
          (Patches resp \<noteq> [] \<longrightarrow> hd (printed mw mw') = dry_run_banner) \<and>
          (\<forall>i<length (Patches resp).
             show_nat (i + 1) @ ''. Package: '' @ PackageName (Patches resp ! i) @ [CHR 0x0A]
               \<in> set (printed mw mw') \<and>
             ''   Current version: '' @ Version (Patches resp ! i) @ [CHR 0x0A] \<in> set (printed mw mw') \<and>
             ''   Patched version: '' @ pi_Version (Patch (Patches resp ! i)) @ [CHR 0x0A]
               \<in> set (printed mw mw'))))"
proof (intro conjI impI allI)
  assume h: "dryRun pa \<and> pip_Run parse pa pw = (pr, pw')"
  then show "unchanged pw pw'" by (auto intro: pip_dry_run(1))
  fix pkgs resp
  assume "ListPackages (pipService pa) (env pw) = Inr pkgs \<and> apiClient pa (map to_sdk_installed pkgs) = Inr resp"
  with h pip_dry_run(2)[of pa parse pw pr pw' pkgs resp]
  have r: "pr = None" and out: "printed pw pw' =
      (if Patches resp = [] then [no_patches_line]
       else ReportDryRun parse (reporter_pkgURL pa) (Patches resp) (useAlias pa))"
    by auto
  show "pr = None" by (rule r)
  show "printed pw pw' = [no_patches_line]" if "Patches resp = []"
    using out that by simp
  show "hd (printed pw pw') = dry_run_banner" if "Patches resp \<noteq> []"
    using out that by (simp add: ReportDryRun_def dry_run_banner_def)
  fix i
  assume i: "i < length (Patches resp)"
  then have ne: "Patches resp \<noteq> []" by auto
  show "show_nat (i + 1) @ ''. Package: '' @ PackageName (Patches resp ! i) @ '' @ '' @
      Version (Patches resp ! i) @ [CHR 0x0A] \<in> set (printed pw pw')"
    using pip_report_lines(1)[OF i] out ne by simp
  show "''   Patch ('' @ (if useAlias pa then ''Aliased'' else ''Non-Aliased'') @ ''): '' @
      pi_Name (if useAlias pa then PatchAlias (Patches resp ! i) else Patch (Patches resp ! i)) @
      '' @ '' @
      pi_Version (if useAlias pa then PatchAlias (Patches resp ! i) else Patch (Patches resp ! i)) @
      [CHR 0x0A] \<in> set (printed pw pw')"
    using pip_report_lines(2)[OF i, of "useAlias pa"] out ne by simp
next
  assume h: "n_dryRun na \<and> npm_Run J na nw = (nr, nw')"
  then show "unchanged nw nw'" by (auto intro: npm_dry_run(1))
  fix pkgs resp
  assume "Stat (n_lockFilePath na) (env nw) \<and>
          Parse (n_parser na) (env nw) (n_lockFilePath na) = Inr pkgs \<and> pkgs \<noteq> [] \<and>
          n_apiClient na (map to_sdk pkgs) = Inr resp"
  with h npm_dry_run(2)[of na J nw nr nw' pkgs resp]
  have r: "nr = Done" and out: "printed nw nw' =
      (if Patches resp = [] then [no_patches_line] else npm_reportDryRun na (Patches resp))"
    by auto
  show "nr = Done" by (rule r)
  show "printed nw nw' = [no_patches_line]" if "Patches resp = []"
    using out that by simp
  show "hd (printed nw nw') = dry_run_banner" if "Patches resp \<noteq> []"
    using out that by (simp add: npm_reportDryRun_def)
  fix i
  assume i: "i < length (Patches resp)"
  then have ne: "Patches resp \<noteq> []" by auto
  show "show_nat (i + 1) @ ''. Package: '' @ PackageName (Patches resp ! i) @ [CHR 0x0A] \<in> set (printed nw nw')"
    using npm_report_lines(1)[OF i] out ne by simp
  show "''   Current version: '' @ Version (Patches resp ! i) @ [CHR 0x0A] \<in> set (printed nw nw')"
    using npm_report_lines(2)[OF i] out ne by simp
  show "''   Aliased package: npm:'' @ pi_Name (PatchAlias (Patches resp ! i)) @ ''@'' @
      pi_Version (PatchAlias (Patches resp ! i)) @ [CHR 0x0A] \<in> set (printed nw nw')"
    using npm_report_lines(3)[OF i] out ne by simp
next
  assume h: "m_dryRun ma \<and> maven_Run ma mw = (mr, mw')"
  then show "unchanged mw mw'" by (auto intro: maven_dry_run(1))
  fix pkgs resp
  assume "Stat (m_filePath ma) (env mw) \<and>
          Parse (m_parser ma) (env mw) (m_filePath ma) = Inr pkgs \<and> pkgs \<noteq> [] \<and>
          m_apiClient ma (map to_sdk pkgs) = Inr resp"
  with h maven_dry_run(2)[of ma mw mr mw' pkgs resp]
  have r: "mr = None" and out: "printed mw mw' =
      (if Patches resp = [] then [no_patches_line] else maven_reportDryRun ma (Patches resp))"
    by auto
  show "mr = None" by (rule r)
  show "printed mw mw' = [no_patches_line]" if "Patches resp = []"
    using out that by simp
  show "hd (printed mw mw') = dry_run_banner" if "Patches resp \<noteq> []"
    using out that by (simp add: maven_reportDryRun_def)
  fix i
  assume i: "i < length (Patches resp)"
  then have ne: "Patches resp \<noteq> []" by auto
  show "show_nat (i + 1) @ ''. Package: '' @ PackageName (Patches resp ! i) @ [CHR 0x0A] \<in> set (printed mw mw')"
    using maven_report_lines(1)[OF i] out ne by simp
  show "''   Current version: '' @ Version (Patches resp ! i) @ [CHR 0x0A] \<in> set (printed mw mw')"
    using maven_report_lines(2)[OF i] out ne by simp
  show "''   Patched version: '' @ pi_Version (Patch (Patches resp ! i)) @ [CHR 0x0A] \<in> set (printed mw mw')"
    using maven_report_lines(3)[OF i] out ne by simp
qed

theorem dry_run_performs_no_mutation_witness:
  "pip_Run (\<lambda>u. None) (ex_pip_app True True ex_api) (ex_world 0) =
     (None,
      \<lparr>env = 0,
       calls = [Call_ListPackages, Call_AnalyzePackages [\<lparr>pkg_Name = ''django'', pkg_Version = ''4.0.0''\<rparr>]],
       stdout =
         [[CHR 0x0A] @ ''=== DRY-RUN MODE ==='' @ [CHR 0x0A],
          ''The following operations would be performed:'' @ [CHR 0x0A],
          [CHR 0x0A],
          ''1. Package: django @ 1.0'' @ [CHR 0x0A],
          ''   Patch (Aliased): rootio-django @ 1.1'' @ [CHR 0x0A],
          ''   CVEs Fixed: []'' @ [CHR 0x0A],
          ''   Commands:'' @ [CHR 0x0A],
          ''     pip uninstall -y django'' @ [CHR 0x0A],
          ''     pip install --no-deps --index-url https://pkg.root.io/pypi/simple/ rootio-django==1.1'' @
            [CHR 0x0A, CHR 0x0A],
          ''To apply these patches, run with --dry-run=false'' @ [CHR 0x0A],
          ''To use original package names instead of aliases, add --use-alias=false'' @ [CHR 0x0A]]\<rparr>) \<and>
   npm_Run ex_json_lib (ex_npm_app ''npm'' True) (ex_world ex_fs) =
     (Done,
      \<lparr>env = ex_fs,
       calls = [Call_Stat ''package-lock.json'', Call_Parse ''package-lock.json'',
                Call_AnalyzePackages [\<lparr>pkg_Name = ''django'', pkg_Version = ''1.0''\<rparr>]],
       stdout =
         [[CHR 0x0A] @ ''=== DRY-RUN MODE ==='' @ [CHR 0x0A],
          ''The following overrides would be added to package.json:'' @ [CHR 0x0A, CHR 0x0A],
          ''1. Package: django'' @ [CHR 0x0A],
          ''   Current version: 1.0'' @ [CHR 0x0A],
          ''   Aliased package: npm:rootio-django@1.1'' @ [CHR 0x0A],
          [CHR 0x0A],
          ''These will be added to package.json under '' @ [CHR 0x22] @ ''overrides'' @ [CHR 0x22] @
            '' field'' @ [CHR 0x0A, CHR 0x0A],
          ''To apply these patches, run with --dry-run=false'' @ [CHR 0x0A],
          ''Then run: npm install'' @ [CHR 0x0A]]\<rparr>) \<and>
   maven_Run (ex_maven_app True) (ex_world ex_fs) =
     (None,
      \<lparr>env = ex_fs,
       calls = [Call_Stat ''pom.xml'', Call_Parse ''pom.xml'',
                Call_AnalyzePackages [\<lparr>pkg_Name = ''django'', pkg_Version = ''1.0''\<rparr>]],
       stdout =
         [[CHR 0x0A] @ ''=== DRY-RUN MODE ==='' @ [CHR 0x0A],
          ''The following packages in pom.xml would be updated:'' @ [CHR 0x0A, CHR 0x0A],
          ''1. Package: django'' @ [CHR 0x0A],
          ''   Current version: 1.0'' @ [CHR 0x0A],
          ''   Patched version: 1.1'' @ [CHR 0x0A],
          [CHR 0x0A],
          ''To apply these patches:'' @ [CHR 0x0A],
          ''  1. Run: DRY_RUN=false rootio_patcher maven remediate'' @ [CHR 0x0A],
          ''  2. Then run: mvn clean install'' @ [CHR 0x0A]]\<rparr>)"
proof -
  let ?p = "pip_Run (\<lambda>u. None) (ex_pip_app True True ex_api) (ex_world 0)"
  let ?n = "npm_Run ex_json_lib (ex_npm_app ''npm'' True) (ex_world ex_fs)"
  let ?m = "maven_Run (ex_maven_app True) (ex_world ex_fs)"
  have p: "dryRun (ex_pip_app True True ex_api)"
    "ListPackages (pipService (ex_pip_app True True ex_api)) (env (ex_world 0)) =
       Inr [\<lparr>inst_Name = ''django'', inst_Version = ''4.0.0'', inst_Location = []\<rparr>]"
    "apiClient (ex_pip_app True True ex_api)
       (map to_sdk_installed [\<lparr>inst_Name = ''django'', inst_Version = ''4.0.0'', inst_Location = []\<rparr>]) = Inr ex_response"
    by (simp_all add: ex_defs ex_app_defs)
  have n: "n_dryRun (ex_npm_app ''npm'' True)"
    "Stat (n_lockFilePath (ex_npm_app ''npm'' True)) (env (ex_world ex_fs))"
    "Parse (n_parser (ex_npm_app ''npm'' True)) (env (ex_world ex_fs)) (n_lockFilePath (ex_npm_app ''npm'' True)) = Inr [ex_info]"
    "n_apiClient (ex_npm_app ''npm'' True) (map to_sdk [ex_info]) = Inr ex_response"
    by (simp_all add: ex_defs ex_app_defs Stat_def)
  have m: "m_dryRun (ex_maven_app True)"
    "Stat (m_filePath (ex_maven_app True)) (env (ex_world ex_fs))"
    "Parse (m_parser (ex_maven_app True)) (env (ex_world ex_fs)) (m_filePath (ex_maven_app True)) = Inr [ex_info]"
    "m_apiClient (ex_maven_app True) (map to_sdk [ex_info]) = Inr ex_response"
    by (simp_all add: ex_defs ex_app_defs Stat_def)
  have "env (snd ?p) = 0 \<and> fst ?p = None \<and> env (snd ?n) = ex_fs \<and> fst ?n = Done \<and>
      env (snd ?m) = ex_fs \<and> fst ?m = None"
    using p n m
      dry_run_performs_no_mutation[of "ex_pip_app True True ex_api" "\<lambda>u. None" "ex_world 0"
        "fst ?p" "snd ?p" "ex_npm_app ''npm'' True" ex_json_lib "ex_world ex_fs" "fst ?n" "snd ?n"
        "ex_maven_app True" "ex_world ex_fs" "fst ?m" "snd ?m"]
    by (auto simp: unchanged_def ex_world_def)
  moreover have "calls (snd ?p) = [Call_ListPackages, Call_AnalyzePackages [\<lparr>pkg_Name = ''django'', pkg_Version = ''4.0.0''\<rparr>]]"
    "stdout (snd ?p) =
         [[CHR 0x0A] @ ''=== DRY-RUN MODE ==='' @ [CHR 0x0A],
          ''The following operations would be performed:'' @ [CHR 0x0A],
          [CHR 0x0A],
          ''1. Package: django @ 1.0'' @ [CHR 0x0A],
          ''   Patch (Aliased): rootio-django @ 1.1'' @ [CHR 0x0A],
          ''   CVEs Fixed: []'' @ [CHR 0x0A],
          ''   Commands:'' @ [CHR 0x0A],
          ''     pip uninstall -y django'' @ [CHR 0x0A],
          ''     pip install --no-deps --index-url https://pkg.root.io/pypi/simple/ rootio-django==1.1'' @
            [CHR 0x0A, CHR 0x0A],
          ''To apply these patches, run with --dry-run=false'' @ [CHR 0x0A],
          ''To use original package names instead of aliases, add --use-alias=false'' @ [CHR 0x0A]]"
    by (simp_all add: pip_Run_def Let_def ex_defs ex_app_defs to_sdk_installed_def ReportDryRun_def
        report_patch_def indexURLTemplate_def show_list_def show_nat.simps digit_char_def)
  moreover have "calls (snd ?n) = [Call_Stat ''package-lock.json'', Call_Parse ''package-lock.json'',
                Call_AnalyzePackages [\<lparr>pkg_Name = ''django'', pkg_Version = ''1.0''\<rparr>]]"
    "stdout (snd ?n) =
         [[CHR 0x0A] @ ''=== DRY-RUN MODE ==='' @ [CHR 0x0A],
          ''The following overrides would be added to package.json:'' @ [CHR 0x0A, CHR 0x0A],
          ''1. Package: django'' @ [CHR 0x0A],
          ''   Current version: 1.0'' @ [CHR 0x0A],
          ''   Aliased package: npm:rootio-django@1.1'' @ [CHR 0x0A],
          [CHR 0x0A],
          ''These will be added to package.json under '' @ [CHR 0x22] @ ''overrides'' @ [CHR 0x22] @
            '' field'' @ [CHR 0x0A, CHR 0x0A],
          ''To apply these patches, run with --dry-run=false'' @ [CHR 0x0A],
          ''Then run: npm install'' @ [CHR 0x0A]]"
    by (simp_all add: npm_Run_def Let_def Stat_def ex_defs ex_app_defs to_sdk_def npm_reportDryRun_def
        npm_report_patch_def getOverrideField_def dry_run_banner_def show_nat.simps digit_char_def)
  moreover have "calls (snd ?m) = [Call_Stat ''pom.xml'', Call_Parse ''pom.xml'',
                Call_AnalyzePackages [\<lparr>pkg_Name = ''django'', pkg_Version = ''1.0''\<rparr>]]"
    "stdout (snd ?m) =
         [[CHR 0x0A] @ ''=== DRY-RUN MODE ==='' @ [CHR 0x0A],
          ''The following packages in pom.xml would be updated:'' @ [CHR 0x0A, CHR 0x0A],
          ''1. Package: django'' @ [CHR 0x0A],
          ''   Current version: 1.0'' @ [CHR 0x0A],
          ''   Patched version: 1.1'' @ [CHR 0x0A],
          [CHR 0x0A],
          ''To apply these patches:'' @ [CHR 0x0A],
          ''  1. Run: DRY_RUN=false rootio_patcher maven remediate'' @ [CHR 0x0A],
          ''  2. Then run: mvn clean install'' @ [CHR 0x0A]]"
    by (simp_all add: maven_Run_def Let_def Stat_def ex_defs ex_app_defs to_sdk_def maven_reportDryRun_def
        maven_report_patch_def dry_run_banner_def show_nat.simps digit_char_def)
  ultimately show ?thesis
    by (cases ?p, cases ?n, cases ?m) auto
qed

subsection \<open>Validation before the write\<close>









subsection \<open>What the npm application writes\<close>

















text \<open>
  Claim C10, as stated, fails: the lock file that was parsed is written when the path
  given to the application names \<open>package.json\<close> itself.  Here the application is built
  for the path \<open>./package.json\<close>, which the file system resolves to the file of
  \<open>package.json\<close>; the run parses that file and then writes the overrides into it.
\<close>

definition ex_dot_fs :: fs where
  "ex_dot_fs = ex_fs\<lparr>file_of := (\<lambda>path. if path = ''./package.json'' then ''package.json'' else path)\<rparr>"

theorem npm_run_writes_parsed_file:
  "n_lockFilePath (ex_npm_app ''./package.json'' False) = ''./package.json'' \<and>
   ReadFile ''./package.json'' ex_dot_fs = Inr ''{}'' \<and>
   fst (npm_Run ex_json_lib (ex_npm_app ''./package.json'' False) (ex_world ex_dot_fs)) = Done \<and>
   calls (snd (npm_Run ex_json_lib (ex_npm_app ''./package.json'' False) (ex_world ex_dot_fs))) =
     [Call_Stat ''./package.json'', Call_Parse ''./package.json'',
      Call_AnalyzePackages [\<lparr>pkg_Name = ''django'', pkg_Version = ''1.0''\<rparr>],
      Call_Stat ''package.json'', Call_ReadFile ''package.json'',
      Call_WriteFile ''package.json''
        (render 0 (JObject [(''overrides'', JObject [(''django'', JString ''npm:rootio-django@1.1'')])]) @ [CHR 0x0A])] \<and>
   ReadFile ''./package.json'' (env (snd (npm_Run ex_json_lib (ex_npm_app ''./package.json'' False) (ex_world ex_dot_fs)))) =
     Inr (render 0 (JObject [(''overrides'', JObject [(''django'', JString ''npm:rootio-django@1.1'')])]) @ [CHR 0x0A])"
  by (simp add: npm_Run_def npm_applyPatches_def updatePackageJSON_def Let_def WriteFile_def
      ReadFile_def Stat_def unmarshal_map_def ex_defs ex_app_defs ex_dot_fs_def set_overrides_def
      getOverrideField_def npm_overrides_def npm_override_value_def json_of_string_map_def to_sdk_def
      suffix_to_prefix)



section \<open>npm: the lock file parser\<close>

subsection \<open>String functions of the standard library\<close>

text \<open>
  \<open>strings.Contains\<close>, \<open>strings.Split\<close> for a separator that is not empty (the parts
  between the occurrences of the separator, found from the left and not overlapping), and
  \<open>strings.Replace\<close> with the count \<open>1\<close> (the first occurrence is replaced).
\<close>

fun Contains :: "string \<Rightarrow> string \<Rightarrow> bool" where
  "Contains [] sub = (sub = [])"
| "Contains (c # cs) sub = (prefix sub (c # cs) \<or> Contains cs sub)"

fun Split_from :: "string \<Rightarrow> string \<Rightarrow> string \<Rightarrow> string list" where
  "Split_from sep cur [] = [cur]"
| "Split_from sep cur (c # cs) =
     (if prefix sep (c # cs) then cur # Split_from sep [] (drop (length sep - 1) cs)
      else Split_from sep (cur @ [c]) cs)"

definition Split :: "string \<Rightarrow> string \<Rightarrow> string list" where
  "Split s sep = Split_from sep [] s"

fun Replace_first :: "string \<Rightarrow> string \<Rightarrow> string \<Rightarrow> string" where
  "Replace_first [] old new = (if old = [] then new else [])"
| "Replace_first (c # cs) old new =
     (if prefix old (c # cs) then new @ drop (length old) (c # cs)
      else c # Replace_first cs old new)"

subsection \<open>The lock file as a Go value\<close>

text \<open>
  A Go map is an association list with one entry for each key; the order of the list is
  the order in which a \<open>range\<close> loop visits the map, which the language leaves open, so a
  property of a loop over a map is stated for every order.  The map of packages can be nil
  (\<open>None\<close>): it is printed as \<open>null\<close>, an empty map as an empty object.
\<close>

record PackageLockEntry =
  e_Version :: string
  e_Resolved :: string
  e_Integrity :: string
  e_Dev :: bool
  e_Dependencies :: "(string \<times> string) list"
  e_DevDependencies :: "(string \<times> string) list"

record DependencyEntry =
  d_Version :: string
  d_Resolved :: string
  d_Dev :: bool
  d_Requires :: "(string \<times> string) list"

record PackageLockJSON =
  l_Name :: string
  l_Version :: string
  l_LockfileVersion :: int
  l_Packages :: "(string \<times> PackageLockEntry) list option"
  l_Dependencies :: "(string \<times> DependencyEntry) list"

definition packages_of :: "PackageLockJSON \<Rightarrow> (string \<times> PackageLockEntry) list" where
  "packages_of lockfile = (case l_Packages lockfile of None \<Rightarrow> [] | Some ps \<Rightarrow> ps)"

subsection \<open>\<open>extractPackageName\<close> and the loop of \<open>Parse\<close>\<close>

definition extractPackageName :: "string \<Rightarrow> string" where
  "extractPackageName pkgPath =
     (if \<not> prefix ''node_modules/'' pkgPath then pkgPath
      else
        let remainder = drop (length ''node_modules/'') pkgPath
        in if Contains remainder ''/node_modules/''
           then last (Split remainder ''/node_modules/'')
           else remainder)"

definition has_key :: "string \<Rightarrow> (string \<times> 'v) list \<Rightarrow> bool" where
  "has_key k m = (map_of m k \<noteq> None)"

text \<open>
  The loop over \<open>lockfile.Packages\<close>: \<open>seen\<close> holds the keys \<open>name@version\<close> met so far; the
  result lists the packages in the order in which the loop appends them.
\<close>

fun parse_entries :: "(string \<times> string) list \<Rightarrow> (string \<times> string) list \<Rightarrow> string list
    \<Rightarrow> (string \<times> PackageLockEntry) list \<Rightarrow> PackageInfo list" where
  "parse_entries directDeps directDevDeps seen [] = []"
| "parse_entries directDeps directDevDeps seen ((pkgPath, pkgData) # rest) =
     (if pkgPath = [] then parse_entries directDeps directDevDeps seen rest
      else
        let name = extractPackageName pkgPath
        in if name = [] then parse_entries directDeps directDevDeps seen rest
           else
             let version = e_Version pkgData
             in if version = [] then parse_entries directDeps directDevDeps seen rest
                else
                  let key = name @ ''@'' @ version
                  in if key \<in> set seen then parse_entries directDeps directDevDeps seen rest
                     else
                       \<lparr>info_Name = name, info_Version = version, info_VersionConstraint = version,
                        info_Ecosystem = EcosystemNpm,
                        info_Direct = (has_key name directDeps \<or> has_key name directDevDeps),
                        info_Dev = (has_key name directDevDeps \<or> e_Dev pkgData),
                        info_Location = []\<rparr>
                       # parse_entries directDeps directDevDeps (key # seen) rest)"

definition parse_lockfile :: "PackageLockJSON \<Rightarrow> PackageInfo list" where
  "parse_lockfile lockfile =
     (case map_of (packages_of lockfile) [] of
        Some rootPkg \<Rightarrow>
          parse_entries (e_Dependencies rootPkg) (e_DevDependencies rootPkg) [] (packages_of lockfile)
      | None \<Rightarrow> parse_entries [] [] [] (packages_of lockfile))"

subsection \<open>The loop of \<open>Update\<close>\<close>

definition update_entry :: "(string \<times> string) list \<Rightarrow> string \<times> PackageLockEntry \<Rightarrow> string \<times> PackageLockEntry" where
  "update_entry updates entry =
     (case entry of (pkgPath, pkgData) \<Rightarrow>
        if pkgPath = [] then (pkgPath, pkgData)
        else
          (case map_of updates (extractPackageName pkgPath) of
             None \<Rightarrow> (pkgPath, pkgData)
           | Some newVersion \<Rightarrow>
               let oldVersion = e_Version pkgData
               in if e_Resolved pkgData \<noteq> [] \<and> oldVersion \<noteq> []
                  then (pkgPath, pkgData\<lparr>e_Version := newVersion,
                          e_Resolved := Replace_first (e_Resolved pkgData) oldVersion newVersion\<rparr>)
                  else (pkgPath, pkgData\<lparr>e_Version := newVersion\<rparr>)))"

definition update_lockfile :: "(string \<times> string) list \<Rightarrow> PackageLockJSON \<Rightarrow> PackageLockJSON" where
  "update_lockfile updates lockfile =
     lockfile\<lparr>l_Packages := map_option (map (update_entry updates)) (l_Packages lockfile)\<rparr>"

subsection \<open>Decoding and encoding the lock file\<close>

text \<open>
  \<open>json.Unmarshal\<close> into \<open>PackageLockJSON\<close>, following the field tags of the structs.  A key
  of the document selects the field whose name it equals under case folding (ASCII letters,
  and the two letters outside ASCII that fold to \<open>s\<close> and \<open>k\<close>); a key that selects no
  field is skipped with its value.  \<open>null\<close> leaves a field as it is, a value of the wrong
  kind is an error; a later member of the same key is decoded over the earlier one.  The
  element of a map is decoded from its zero value.
\<close>

fun fold_key :: "string \<Rightarrow> string" where
  "fold_key [] = []"
| "fold_key (c # cs) =
     (if c = CHR 0xC5 \<and> prefix [CHR 0xBF] cs then CHR ''s'' # fold_key (drop 1 cs)
      else if c = CHR 0xE2 \<and> prefix [CHR 0x84, CHR 0xAA] cs then CHR ''k'' # fold_key (drop 2 cs)
      else to_lower c # fold_key cs)"

definition dec_string :: "json \<Rightarrow> string \<Rightarrow> string option" where
  "dec_string v cur = (case v of JString s \<Rightarrow> Some s | JNull \<Rightarrow> Some cur | _ \<Rightarrow> None)"

definition dec_bool :: "json \<Rightarrow> bool \<Rightarrow> bool option" where
  "dec_bool v cur = (case v of JBool b \<Rightarrow> Some b | JNull \<Rightarrow> Some cur | _ \<Rightarrow> None)"

definition digit_value :: "char \<Rightarrow> nat option" where
  "digit_value c = map_of (zip ''0123456789'' [0, 1, 2, 3, 4, 5, 6, 7, 8, 9]) c"

fun parse_nat_from :: "nat \<Rightarrow> string \<Rightarrow> nat option" where
  "parse_nat_from n [] = Some n"
| "parse_nat_from n (c # cs) =
     (case digit_value c of None \<Rightarrow> None | Some d \<Rightarrow> parse_nat_from (10 * n + d) cs)"

definition parse_int :: "string \<Rightarrow> int option" where
  "parse_int lit =
     (case lit of
        [] \<Rightarrow> None
      | c # cs \<Rightarrow>
          if c = CHR ''-'' then (if cs = [] then None else map_option (\<lambda>n. - int n) (parse_nat_from 0 cs))
          else map_option int (parse_nat_from 0 (c # cs)))"

text \<open>A Go \<open>int\<close> has 64 bits: a literal outside its range, or not an integer, is an error.\<close>

definition dec_int :: "json \<Rightarrow> int \<Rightarrow> int option" where
  "dec_int v cur =
     (case v of
        JNumber lit \<Rightarrow>
          (case parse_int lit of
             Some i \<Rightarrow> if - (2 ^ 63) \<le> i \<and> i < 2 ^ 63 then Some i else None
           | None \<Rightarrow> None)
      | JNull \<Rightarrow> Some cur
      | _ \<Rightarrow> None)"

definition show_int :: "int \<Rightarrow> string" where
  "show_int i = (if i < 0 then ''-'' @ show_nat (nat (- i)) else show_nat (nat i))"

text \<open>Members of an object decoded one after the other into a map, each from a zero element.\<close>

fun dec_members :: "(json \<Rightarrow> 'v option) \<Rightarrow> (string \<times> json) list \<Rightarrow> (string \<times> 'v) list \<Rightarrow> (string \<times> 'v) list option" where
  "dec_members dec [] m = Some m"
| "dec_members dec ((k, v) # rest) m =
     (case dec v of None \<Rightarrow> None | Some x \<Rightarrow> dec_members dec rest (AList.update k x m))"

definition dec_map :: "(json \<Rightarrow> 'v option) \<Rightarrow> json \<Rightarrow> (string \<times> 'v) list \<Rightarrow> (string \<times> 'v) list option" where
  "dec_map dec v cur =
     (case v of JObject ms \<Rightarrow> dec_members dec ms cur | JNull \<Rightarrow> Some [] | _ \<Rightarrow> None)"

definition dec_string_map :: "json \<Rightarrow> (string \<times> string) list \<Rightarrow> (string \<times> string) list option" where
  "dec_string_map = dec_map (\<lambda>v. dec_string v [])"

text \<open>The members of an object decoded one after the other into a struct.\<close>

fun dec_fields :: "(string \<Rightarrow> json \<Rightarrow> 's \<Rightarrow> 's option) \<Rightarrow> (string \<times> json) list \<Rightarrow> 's \<Rightarrow> 's option" where
  "dec_fields field [] s = Some s"
| "dec_fields field ((k, v) # rest) s =
     (case field (fold_key k) v s of None \<Rightarrow> None | Some s' \<Rightarrow> dec_fields field rest s')"

definition dec_struct :: "(string \<Rightarrow> json \<Rightarrow> 's \<Rightarrow> 's option) \<Rightarrow> 's \<Rightarrow> json \<Rightarrow> 's option" where
  "dec_struct field zero v =
     (case v of JObject ms \<Rightarrow> dec_fields field ms zero | JNull \<Rightarrow> Some zero | _ \<Rightarrow> None)"

definition zero_entry :: PackageLockEntry where
  "zero_entry = \<lparr>e_Version = [], e_Resolved = [], e_Integrity = [], e_Dev = False,
     e_Dependencies = [], e_DevDependencies = []\<rparr>"

definition entry_field :: "string \<Rightarrow> json \<Rightarrow> PackageLockEntry \<Rightarrow> PackageLockEntry option" where
  "entry_field k v e =
     (if k = ''version'' then map_option (\<lambda>x. e\<lparr>e_Version := x\<rparr>) (dec_string v (e_Version e))
      else if k = ''resolved'' then map_option (\<lambda>x. e\<lparr>e_Resolved := x\<rparr>) (dec_string v (e_Resolved e))
      else if k = ''integrity'' then map_option (\<lambda>x. e\<lparr>e_Integrity := x\<rparr>) (dec_string v (e_Integrity e))
      else if k = ''dev'' then map_option (\<lambda>x. e\<lparr>e_Dev := x\<rparr>) (dec_bool v (e_Dev e))
      else if k = ''dependencies''
      then map_option (\<lambda>x. e\<lparr>e_Dependencies := x\<rparr>) (dec_string_map v (e_Dependencies e))
      else if k = ''devdependencies''
      then map_option (\<lambda>x. e\<lparr>e_DevDependencies := x\<rparr>) (dec_string_map v (e_DevDependencies e))
      else Some e)"

definition decode_entry :: "json \<Rightarrow> PackageLockEntry option" where
  "decode_entry = dec_struct entry_field zero_entry"

definition zero_dependency :: DependencyEntry where
  "zero_dependency = \<lparr>d_Version = [], d_Resolved = [], d_Dev = False, d_Requires = []\<rparr>"

definition dependency_field :: "string \<Rightarrow> json \<Rightarrow> DependencyEntry \<Rightarrow> DependencyEntry option" where
  "dependency_field k v d =
     (if k = ''version'' then map_option (\<lambda>x. d\<lparr>d_Version := x\<rparr>) (dec_string v (d_Version d))
      else if k = ''resolved'' then map_option (\<lambda>x. d\<lparr>d_Resolved := x\<rparr>) (dec_string v (d_Resolved d))
      else if k = ''dev'' then map_option (\<lambda>x. d\<lparr>d_Dev := x\<rparr>) (dec_bool v (d_Dev d))
      else if k = ''requires'' then map_option (\<lambda>x. d\<lparr>d_Requires := x\<rparr>) (dec_string_map v (d_Requires d))
      else Some d)"

definition decode_dependency :: "json \<Rightarrow> DependencyEntry option" where
  "decode_dependency = dec_struct dependency_field zero_dependency"

definition zero_lockfile :: PackageLockJSON where
  "zero_lockfile = \<lparr>l_Name = [], l_Version = [], l_LockfileVersion = 0, l_Packages = None,
     l_Dependencies = []\<rparr>"

definition lockfile_field :: "string \<Rightarrow> json \<Rightarrow> PackageLockJSON \<Rightarrow> PackageLockJSON option" where
  "lockfile_field k v l =
     (if k = ''name'' then map_option (\<lambda>x. l\<lparr>l_Name := x\<rparr>) (dec_string v (l_Name l))
      else if k = ''version'' then map_option (\<lambda>x. l\<lparr>l_Version := x\<rparr>) (dec_string v (l_Version l))
      else if k = ''lockfileversion''
      then map_option (\<lambda>x. l\<lparr>l_LockfileVersion := x\<rparr>) (dec_int v (l_LockfileVersion l))
      else if k = ''packages''
      then (case v of
              JNull \<Rightarrow> Some (l\<lparr>l_Packages := None\<rparr>)
            | _ \<Rightarrow> map_option (\<lambda>x. l\<lparr>l_Packages := Some x\<rparr>) (dec_map decode_entry v (packages_of l)))
      else if k = ''dependencies''
      then map_option (\<lambda>x. l\<lparr>l_Dependencies := x\<rparr>) (dec_map decode_dependency v (l_Dependencies l))
      else Some l)"

definition decode_PackageLockJSON :: "json \<Rightarrow> PackageLockJSON option" where
  "decode_PackageLockJSON = dec_struct lockfile_field zero_lockfile"

definition unmarshal_lockfile :: "json_lib \<Rightarrow> string \<Rightarrow> string + PackageLockJSON" where
  "unmarshal_lockfile J content =
     (case Unmarshal J content of
        Inl err \<Rightarrow> Inl err
      | Inr v \<Rightarrow>
          (case decode_PackageLockJSON v of
             None \<Rightarrow> Inl ''json: cannot unmarshal value into Go struct field of PackageLockJSON''
           | Some lockfile \<Rightarrow> Inr lockfile))"

text \<open>
  \<open>json.MarshalIndent\<close> of the struct: the fields in the order of their declaration, a
  field tagged \<open>omitempty\<close> left out when it is empty, the keys of a map in increasing
  order of their bytes.
\<close>

definition omitempty :: "string \<Rightarrow> bool \<Rightarrow> json \<Rightarrow> (string \<times> json) list" where
  "omitempty k is_empty v = (if is_empty then [] else [(k, v)])"

definition enc_map :: "('v \<Rightarrow> json) \<Rightarrow> (string \<times> 'v) list \<Rightarrow> json" where
  "enc_map enc m = JObject (map (\<lambda>(k, x). (k, enc x)) (sort_key fst m))"

definition encode_entry :: "PackageLockEntry \<Rightarrow> json" where
  "encode_entry e = JObject (
     omitempty ''version'' (e_Version e = []) (JString (e_Version e)) @
     omitempty ''resolved'' (e_Resolved e = []) (JString (e_Resolved e)) @
     omitempty ''integrity'' (e_Integrity e = []) (JString (e_Integrity e)) @
     omitempty ''dev'' (\<not> e_Dev e) (JBool (e_Dev e)) @
     omitempty ''dependencies'' (e_Dependencies e = []) (enc_map JString (e_Dependencies e)) @
     omitempty ''devDependencies'' (e_DevDependencies e = []) (enc_map JString (e_DevDependencies e)))"

definition encode_dependency :: "DependencyEntry \<Rightarrow> json" where
  "encode_dependency d = JObject (
     [(''version'', JString (d_Version d))] @
     omitempty ''resolved'' (d_Resolved d = []) (JString (d_Resolved d)) @
     omitempty ''dev'' (\<not> d_Dev d) (JBool (d_Dev d)) @
     omitempty ''requires'' (d_Requires d = []) (enc_map JString (d_Requires d)))"

definition encode_PackageLockJSON :: "PackageLockJSON \<Rightarrow> json" where
  "encode_PackageLockJSON l = JObject (
     [(''name'', JString (l_Name l)),
      (''version'', JString (l_Version l)),
      (''lockfileVersion'', JNumber (show_int (l_LockfileVersion l))),
      (''packages'', (case l_Packages l of None \<Rightarrow> JNull | Some ps \<Rightarrow> enc_map encode_entry ps))] @
     omitempty ''dependencies'' (l_Dependencies l = []) (enc_map encode_dependency (l_Dependencies l)))"

subsection \<open>\<open>Parse\<close>, \<open>Update\<close> and \<open>Validate\<close> of the npm parser\<close>

definition npm_Parse :: "json_lib \<Rightarrow> fs \<Rightarrow> string \<Rightarrow> string + PackageInfo list" where
  "npm_Parse J f filePath =
     (if suffix ''yarn.lock'' filePath then Inl ''yarn.lock parsing not yet implemented''
      else if suffix ''pnpm-lock.yaml'' filePath then Inl ''pnpm-lock.yaml parsing not yet implemented''
      else
        (case ReadFile filePath f of
           Inl err \<Rightarrow> Inl (''failed to read file: '' @ err)
         | Inr content \<Rightarrow>
             (case unmarshal_lockfile J content of
                Inl err \<Rightarrow> Inl (''failed to parse JSON: '' @ err)
              | Inr lockfile \<Rightarrow> Inr (parse_lockfile lockfile))))"

definition npm_Update :: "json_lib \<Rightarrow> fs \<Rightarrow> string \<Rightarrow> (string \<times> string) list \<Rightarrow> string + string" where
  "npm_Update J f filePath updates =
     (case ReadFile filePath f of
        Inl err \<Rightarrow> Inl (''failed to read file: '' @ err)
      | Inr content \<Rightarrow>
          (case unmarshal_lockfile J content of
             Inl err \<Rightarrow> Inl (''failed to parse JSON: '' @ err)
           | Inr lockfile \<Rightarrow>
               (case MarshalIndent J (encode_PackageLockJSON (update_lockfile updates lockfile)) of
                  Inl err \<Rightarrow> Inl (''failed to marshal JSON: '' @ err)
                | Inr updatedContent \<Rightarrow> Inr (updatedContent @ [CHR 0x0A]))))"

definition npm_Validate :: "json_lib \<Rightarrow> string \<Rightarrow> bool" where
  "npm_Validate J content = (case unmarshal_lockfile J content of Inl err \<Rightarrow> False | Inr lockfile \<Rightarrow> True)"

definition npm_NewParser :: "json_lib \<Rightarrow> Parser" where
  "npm_NewParser J = \<lparr>Parse = npm_Parse J, Update = npm_Update J, Validate = npm_Validate J\<rparr>"

section \<open>Maven: the POM parser\<close>

subsection \<open>The project as a Go value\<close>

text \<open>
  \<open>xml.Unmarshal\<close> into \<open>Project\<close> belongs to \<open>encoding/xml\<close> and is a parameter of the
  model: it gives the decoded project of a text, or an error.  The map of properties holds
  the local name and the character data of each child element of \<open>properties\<close>, as
  \<open>Properties.UnmarshalXML\<close> fills it.
\<close>

record Dependency =
  dep_GroupID :: string
  dep_ArtifactID :: string
  dep_Version :: string
  dep_Scope :: string

record Project =
  p_GroupID :: string
  p_ArtifactID :: string
  p_Version :: string
  p_Properties :: "(string \<times> string) list"
  p_Dependencies :: "Dependency list"

type_synonym xml_Unmarshal = "string \<Rightarrow> string + Project"

subsection \<open>\<open>Parse\<close>\<close>

definition TrimPrefix :: "string \<Rightarrow> string \<Rightarrow> string" where
  "TrimPrefix s p = (if prefix p s then drop (length p) s else s)"

definition TrimSuffix :: "string \<Rightarrow> string \<Rightarrow> string" where
  "TrimSuffix s p = (if suffix p s then take (length s - length p) s else s)"

definition resolveProperty :: "string \<Rightarrow> (string \<times> string) list \<Rightarrow> string" where
  "resolveProperty v properties =
     (if v = [] \<or> \<not> prefix ''${'' v then v
      else
        let propName = TrimSuffix (TrimPrefix v ''${'') ''}''
        in (case map_of properties propName of Some resolved \<Rightarrow> resolved | None \<Rightarrow> v))"

definition maven_name :: "Dependency \<Rightarrow> string" where
  "maven_name dep = dep_GroupID dep @ '':'' @ dep_ArtifactID dep"

fun parse_dependencies :: "(string \<times> string) list \<Rightarrow> Dependency list \<Rightarrow> PackageInfo list" where
  "parse_dependencies properties [] = []"
| "parse_dependencies properties (dep # rest) =
     (if dep_GroupID dep = [] \<or> dep_ArtifactID dep = [] then parse_dependencies properties rest
      else
        let version = resolveProperty (dep_Version dep) properties
        in if version = [] then parse_dependencies properties rest
           else
             \<lparr>info_Name = maven_name dep, info_Version = version, info_VersionConstraint = version,
              info_Ecosystem = EcosystemMaven, info_Direct = True,
              info_Dev = (dep_Scope dep = ''test''), info_Location = []\<rparr>
             # parse_dependencies properties rest)"

definition parse_project :: "Project \<Rightarrow> PackageInfo list" where
  "parse_project project = parse_dependencies (p_Properties project) (p_Dependencies project)"

definition maven_Parse :: "xml_Unmarshal \<Rightarrow> fs \<Rightarrow> string \<Rightarrow> string + PackageInfo list" where
  "maven_Parse X f filePath =
     (case ReadFile filePath f of
        Inl err \<Rightarrow> Inl (''failed to read file: '' @ err)
      | Inr content \<Rightarrow>
          (case X content of
             Inl err \<Rightarrow> Inl (''failed to parse XML: '' @ err)
           | Inr project \<Rightarrow> Inr (parse_project project)))"

subsection \<open>The regular expressions of \<open>Update\<close>\<close>

text \<open>
  The two patterns are sequences of literals (the names and versions are quoted by
  \<open>regexp.QuoteMeta\<close>), of \<open>\s*\<close>, \<open>[^<]*\<close> and \<open>[^>]*\<close>.  Each starred class is followed by
  a character outside the class, so it takes all the characters of the class there are,
  and a match at a position is unique: it is computed from left to right.  A match gives
  the texts of the two groups and the text after the match.
\<close>

definition lit :: "string \<Rightarrow> string \<Rightarrow> string option" where
  "lit l s = (if prefix l s then Some (drop (length l) s) else None)"

definition is_space :: "char \<Rightarrow> bool" where
  "is_space c = (c \<in> set [CHR 0x09, CHR 0x0A, CHR 0x0C, CHR 0x0D, CHR 0x20])"

text \<open>The pattern \<open>(<name>)[^<]*(</[^>]*>)\<close>.\<close>

definition match_property :: "string \<Rightarrow> string \<Rightarrow> (string \<times> string \<times> string) option" where
  "match_property propName s =
     (case lit (''<'' @ propName @ ''>'') s of
        None \<Rightarrow> None
      | Some r1 \<Rightarrow>
          (case lit ''</'' (dropWhile (\<lambda>c. c \<noteq> CHR ''<'') r1) of
             None \<Rightarrow> None
           | Some r2 \<Rightarrow>
               (case dropWhile (\<lambda>c. c \<noteq> CHR ''>'') r2 of
                  [] \<Rightarrow> None
                | c # rest \<Rightarrow>
                    Some (''<'' @ propName @ ''>'',
                          ''</'' @ takeWhile (\<lambda>c. c \<noteq> CHR ''>'') r2 @ ''>'',
                          rest))))"

text \<open>
  The pattern
  \<open>(<dependency>\s*<groupId>G</groupId>\s*<artifactId>A</artifactId>\s*<version>)V(</version>)\<close>.
\<close>

definition match_dependency :: "string \<Rightarrow> string \<Rightarrow> string \<Rightarrow> string \<Rightarrow> (string \<times> string \<times> string) option" where
  "match_dependency groupID artifactID oldVersion s =
     (case lit ''<dependency>'' s of
        None \<Rightarrow> None
      | Some r1 \<Rightarrow>
          (case lit (''<groupId>'' @ groupID @ ''</groupId>'') (dropWhile is_space r1) of
             None \<Rightarrow> None
           | Some r2 \<Rightarrow>
               (case lit (''<artifactId>'' @ artifactID @ ''</artifactId>'') (dropWhile is_space r2) of
                  None \<Rightarrow> None
                | Some r3 \<Rightarrow>
                    (case lit ''<version>'' (dropWhile is_space r3) of
                       None \<Rightarrow> None
                     | Some r4 \<Rightarrow>
                         (case lit oldVersion r4 of
                            None \<Rightarrow> None
                          | Some r5 \<Rightarrow>
                              (case lit ''</version>'' r5 of
                                 None \<Rightarrow> None
                               | Some rest \<Rightarrow>
                                   Some (take (length s - length r4) s, ''</version>'', rest)))))))"

text \<open>
  The expansion of a replacement template (\<open>Regexp.Expand\<close>): \<open>$$\<close> is a dollar sign,
  \<open>$name\<close> and \<open>${name}\<close> stand for a group, and a dollar sign that begins neither stays.
  A name is a run of letters, digits and underscores.  The template is read as UTF-8:
  \<open>utf8.DecodeRuneInString\<close> gives the rune at the start of a string and the number of its
  bytes, and the rune \<open>U+FFFD\<close> with one byte where the bytes are not an encoding.  The
  letters and digits of ASCII are written out; for the other runes the tables of package
  \<open>unicode\<close> are a parameter \<open>U\<close> of the model: \<open>U r\<close> says that \<open>unicode.IsLetter\<close> or
  \<open>unicode.IsDigit\<close> holds of \<open>r\<close> (neither holds of \<open>U+FFFD\<close>).  A name that is a decimal
  number without a leading zero is the group of that number, any other name is a named
  group, and the patterns have none: a group that does not exist is empty.
\<close>

type_synonym unicode_tables = "nat \<Rightarrow> bool"

definition RuneError :: nat where
  "RuneError = 0xFFFD"

definition DecodeRuneInString :: "string \<Rightarrow> nat \<times> nat" where
  "DecodeRuneInString s =
     (let n = length s; b = (\<lambda>i. of_char (s ! i) :: nat)
      in if n < 1 then (RuneError, 0)
         else if b 0 < 0x80 then (b 0, 1)
         else if b 0 < 0xC2 \<or> 0xF4 < b 0 then (RuneError, 1)
         else
           let sz = (if b 0 < 0xE0 then 2 else if b 0 < 0xF0 then 3 else 4 :: nat);
               lo = (if b 0 = 0xE0 then 0xA0 else if b 0 = 0xF0 then 0x90 else 0x80 :: nat);
               hi = (if b 0 = 0xED then 0x9F else if b 0 = 0xF4 then 0x8F else 0xBF :: nat)
           in if n < sz then (RuneError, 1)
              else if b 1 < lo \<or> hi < b 1 then (RuneError, 1)
              else if sz \<le> 2 then ((b 0 mod 32) * 64 + b 1 mod 64, 2)
              else if b 2 < 0x80 \<or> 0xBF < b 2 then (RuneError, 1)
              else if sz \<le> 3 then ((b 0 mod 16) * 4096 + (b 1 mod 64) * 64 + b 2 mod 64, 3)
              else if b 3 < 0x80 \<or> 0xBF < b 3 then (RuneError, 1)
              else ((b 0 mod 8) * 262144 + (b 1 mod 64) * 4096 + (b 2 mod 64) * 64 + b 3 mod 64, 4))"

definition is_name_rune :: "unicode_tables \<Rightarrow> nat \<Rightarrow> bool" where
  "is_name_rune U r =
     (if r < 0x80
      then (0x30 \<le> r \<and> r \<le> 0x39) \<or> (0x41 \<le> r \<and> r \<le> 0x5A) \<or> (0x61 \<le> r \<and> r \<le> 0x7A) \<or> r = 0x5F
      else r \<noteq> RuneError \<and> U r)"

lemma DecodeRuneInString_size: "(r, width) = DecodeRuneInString (c # cs) \<Longrightarrow> 0 < width"
  by (auto simp: DecodeRuneInString_def Let_def split: if_splits)

text \<open>The loop of \<open>extract\<close> over the runes of a name: the number of bytes of the name.\<close>

function name_length :: "unicode_tables \<Rightarrow> string \<Rightarrow> nat" where
  "name_length U [] = 0"
| "name_length U (c # cs) =
     (case DecodeRuneInString (c # cs) of
        (r, width) \<Rightarrow> if is_name_rune U r then width + name_length U (drop width (c # cs)) else 0)"
  by pat_completeness auto
termination
  by (relation "measure (\<lambda>(U, s). length s)") (auto dest: DecodeRuneInString_size)

definition extract_name :: "unicode_tables \<Rightarrow> string \<Rightarrow> (string \<times> string) option" where
  "extract_name U str =
     (case str of
        [] \<Rightarrow> None
      | c # cs \<Rightarrow>
          let brace = (c = CHR ''{'');
              s = (if brace then cs else str);
              i = name_length U s;
              name = take i s;
              after = drop i s
          in if i = 0 then None
             else if brace
             then (case after of
                     [] \<Rightarrow> None
                   | d # rest \<Rightarrow> if d = CHR ''}'' then Some (name, rest) else None)
             else Some (name, after))"

definition group_text :: "string \<Rightarrow> string list \<Rightarrow> string" where
  "group_text name groups =
     (case parse_nat_from 0 name of
        None \<Rightarrow> []
      | Some n \<Rightarrow>
          if (hd name = CHR ''0'' \<and> length name > 1) \<or> n \<ge> length groups then []
          else groups ! n)"

lemma extract_name_shorter:
  assumes e: "extract_name U str = Some (name, rest)"
  shows "length rest \<le> length str"
proof (cases str)
  case Nil
  then show ?thesis using e by (simp add: extract_name_def)
next
  case (Cons c cs)
  show ?thesis
  proof (cases "c = CHR ''{''")
    case True
    with e Cons obtain d where "drop (name_length U cs) cs = d # rest"
      by (auto simp: extract_name_def Let_def split: list.splits if_splits)
    then have "length rest < length cs"
      by (metis drop_all length_Cons length_drop less_Suc_eq_le less_imp_diff_less linorder_not_le list.simps(3) diff_le_self le_trans lessI)
    then show ?thesis using Cons by simp
  next
    case False
    with e Cons have "rest = drop (name_length U str) str"
      by (auto simp: extract_name_def Let_def split: if_splits)
    then show ?thesis by simp
  qed
qed

function expand :: "unicode_tables \<Rightarrow> string \<Rightarrow> string list \<Rightarrow> string" where
  "expand U [] groups = []"
| "expand U (c # cs) groups =
     (if c \<noteq> CHR ''$'' then c # expand U cs groups
      else if prefix ''$'' cs then CHR ''$'' # expand U (drop 1 cs) groups
      else
        (case extract_name U cs of
           None \<Rightarrow> CHR ''$'' # expand U cs groups
         | Some (name, rest) \<Rightarrow> group_text name groups @ expand U rest groups))"
  by pat_completeness auto
termination
  by (relation "measure (\<lambda>(U, t, g). length t)") (auto dest: extract_name_shorter simp: le_imp_less_Suc)

text \<open>
  \<open>ReplaceAllString\<close>: the matches are found from the left and do not overlap; each is
  replaced by the expansion of the template, the text between them is kept.
\<close>

function ReplaceAll :: "unicode_tables \<Rightarrow> (string \<Rightarrow> (string \<times> string \<times> string) option) \<Rightarrow> string \<Rightarrow> string \<Rightarrow> string" where
  "ReplaceAll U m template [] = []"
| "ReplaceAll U m template (c # cs) =
     (case m (c # cs) of
        None \<Rightarrow> c # ReplaceAll U m template cs
      | Some (g1, g2, rest) \<Rightarrow>
          if length rest \<le> length cs
          then expand U template [take (length (c # cs) - length rest) (c # cs), g1, g2] @
               ReplaceAll U m template rest
          else c # ReplaceAll U m template cs)"
  by pat_completeness auto
termination
  by (relation "measure (\<lambda>(U, m, t, s). length s)") auto

subsection \<open>\<open>Update\<close> and \<open>Validate\<close>\<close>

definition replaceDependencyVersion :: "unicode_tables \<Rightarrow> string \<Rightarrow> string \<Rightarrow> string \<Rightarrow> string \<Rightarrow> string \<Rightarrow> string" where
  "replaceDependencyVersion U content groupID artifactID oldVersion newVersion =
     ReplaceAll U (match_dependency groupID artifactID oldVersion) (''${1}'' @ newVersion @ ''${2}'') content"

definition replaceProperty :: "unicode_tables \<Rightarrow> string \<Rightarrow> string \<Rightarrow> string \<Rightarrow> string" where
  "replaceProperty U content propName newVersion =
     ReplaceAll U (match_property propName) (''${1}'' @ newVersion @ ''${2}'') content"

definition update_dependency :: "unicode_tables \<Rightarrow> (string \<times> string) list \<Rightarrow> (string \<times> string) list \<Rightarrow> Dependency \<Rightarrow> string \<Rightarrow> string" where
  "update_dependency U properties updates dep updatedContent =
     (if dep_GroupID dep = [] \<or> dep_ArtifactID dep = [] then updatedContent
      else
        (case map_of updates (maven_name dep) of
           None \<Rightarrow> updatedContent
         | Some newVersion \<Rightarrow>
             let oldVersion = dep_Version dep
             in if prefix ''${'' oldVersion
                then
                  let propName = TrimSuffix (TrimPrefix oldVersion ''${'') ''}''
                  in if has_key propName properties
                     then replaceProperty U updatedContent propName newVersion
                     else updatedContent
                else replaceDependencyVersion U updatedContent (dep_GroupID dep) (dep_ArtifactID dep)
                       oldVersion newVersion))"

definition update_project :: "unicode_tables \<Rightarrow> Project \<Rightarrow> (string \<times> string) list \<Rightarrow> string \<Rightarrow> string" where
  "update_project U project updates content =
     fold (update_dependency U (p_Properties project) updates) (p_Dependencies project) content"

definition maven_Update :: "unicode_tables \<Rightarrow> xml_Unmarshal \<Rightarrow> fs \<Rightarrow> string \<Rightarrow> (string \<times> string) list \<Rightarrow> string + string" where
  "maven_Update U X f filePath updates =
     (case ReadFile filePath f of
        Inl err \<Rightarrow> Inl (''failed to read file: '' @ err)
      | Inr content \<Rightarrow>
          (case X content of
             Inl err \<Rightarrow> Inl (''failed to parse XML: '' @ err)
           | Inr project \<Rightarrow> Inr (update_project U project updates content)))"

definition maven_Validate :: "xml_Unmarshal \<Rightarrow> string \<Rightarrow> bool" where
  "maven_Validate X content = (case X content of Inl err \<Rightarrow> False | Inr project \<Rightarrow> True)"

definition maven_NewParser :: "unicode_tables \<Rightarrow> xml_Unmarshal \<Rightarrow> Parser" where
  "maven_NewParser U X = \<lparr>Parse = maven_Parse X, Update = maven_Update U X, Validate = maven_Validate X\<rparr>"

section \<open>Properties of the parsers\<close>

subsection \<open>What \<open>Parse\<close> returns\<close>

lemma parse_entries_seen:
  "p \<in> set (parse_entries dd dv seen es) \<Longrightarrow> info_Name p @ ''@'' @ info_Version p \<notin> set seen"
  by (induction dd dv seen es rule: parse_entries.induct) (auto simp: Let_def split: if_splits)

lemma parse_entries_nonempty:
  "p \<in> set (parse_entries dd dv seen es) \<Longrightarrow> info_Name p \<noteq> [] \<and> info_Version p \<noteq> []"
  by (induction dd dv seen es rule: parse_entries.induct) (auto simp: Let_def split: if_splits)

lemma parse_entries_distinct:
  "distinct (map (\<lambda>p. (info_Name p, info_Version p)) (parse_entries dd dv seen es))"
proof (induction dd dv seen es rule: parse_entries.induct)
  case (1 dd dv seen)
  then show ?case by simp
next
  case (2 dd dv seen pkgPath pkgData rest)
  then show ?case
    by (auto simp: Let_def dest!: parse_entries_seen)
qed

lemma parse_lockfile_nonempty:
  "p \<in> set (parse_lockfile l) \<Longrightarrow> info_Name p \<noteq> [] \<and> info_Version p \<noteq> []"
  by (auto simp: parse_lockfile_def dest: parse_entries_nonempty split: option.splits)

lemma parse_lockfile_distinct:
  "distinct (map (\<lambda>p. (info_Name p, info_Version p)) (parse_lockfile l))"
  by (simp add: parse_lockfile_def parse_entries_distinct split: option.splits)

lemma parse_dependencies_nonempty:
  "p \<in> set (parse_dependencies props deps) \<Longrightarrow> info_Name p \<noteq> [] \<and> info_Version p \<noteq> []"
  by (induction props deps rule: parse_dependencies.induct)
     (auto simp: Let_def maven_name_def split: if_splits)

subsection \<open>Test documents\<close>

text \<open>
  Doubles of the two decoders that know one document each, and the documents: a POM that
  declares one artifact twice (the jar and its test jar), and a lock file in the manner of
  the one of \<open>TestNpmParser_Update\<close>, whose lock entry has a member \<open>license\<close>.
\<close>


definition newline :: string where
  "newline = [CHR 0x0A]"

definition xml_double :: "string \<Rightarrow> Project \<Rightarrow> xml_Unmarshal" where
  "xml_double doc project = (\<lambda>content. if content = doc then Inr project else Inl ''XML syntax error'')"

definition fs_with :: "string \<Rightarrow> string \<Rightarrow> fs" where
  "fs_with path content = \<lparr>file_of = (\<lambda>path. path), files = [path \<mapsto> content],
     read_errors = Map.empty, write_errors = Map.empty\<rparr>"

definition ex_pom_two_artifacts :: string where
  "ex_pom_two_artifacts = join newline
     [''<project>'',
      ''  <dependencies>'',
      ''    <dependency>'',
      ''      <groupId>org.apache.hadoop</groupId>'',
      ''      <artifactId>hadoop-common</artifactId>'',
      ''      <version>3.3.6</version>'',
      ''    </dependency>'',
      ''    <dependency>'',
      ''      <groupId>org.apache.hadoop</groupId>'',
      ''      <artifactId>hadoop-common</artifactId>'',
      ''      <version>3.3.6</version>'',
      ''      <type>test-jar</type>'',
      ''      <scope>test</scope>'',
      ''    </dependency>'',
      ''  </dependencies>'',
      ''</project>'']"

definition ex_project_two_artifacts :: Project where
  "ex_project_two_artifacts = \<lparr>p_GroupID = [], p_ArtifactID = [], p_Version = [], p_Properties = [],
     p_Dependencies =
       [\<lparr>dep_GroupID = ''org.apache.hadoop'', dep_ArtifactID = ''hadoop-common'', dep_Version = ''3.3.6'', dep_Scope = []\<rparr>,
        \<lparr>dep_GroupID = ''org.apache.hadoop'', dep_ArtifactID = ''hadoop-common'', dep_Version = ''3.3.6'', dep_Scope = ''test''\<rparr>]\<rparr>"

definition ex_hadoop :: "bool \<Rightarrow> PackageInfo" where
  "ex_hadoop dev = \<lparr>info_Name = ''org.apache.hadoop:hadoop-common'', info_Version = ''3.3.6'',
     info_VersionConstraint = ''3.3.6'', info_Ecosystem = EcosystemMaven, info_Direct = True,
     info_Dev = dev, info_Location = []\<rparr>"

definition json_double :: "string \<Rightarrow> json \<Rightarrow> json_lib" where
  "json_double content doc =
     \<lparr>Unmarshal = (\<lambda>c. if c = content then Inr doc else Inl ''invalid character''),
      MarshalIndent = (\<lambda>v. Inr (render 0 v))\<rparr>"

definition ex_lock_doc :: json where
  "ex_lock_doc = JObject
     [(''name'', JString ''test-project''),
      (''version'', JString ''1.0.0''),
      (''lockfileVersion'', JNumber ''3''),
      (''requires'', JBool True),
      (''packages'', JObject
         [('''', JObject
            [(''name'', JString ''test-project''),
             (''dependencies'', JObject [(''lodash'', JString ''^4.17.20'')])]),
          (''node_modules/lodash'', JObject
            [(''version'', JString ''4.17.20''),
             (''resolved'', JString ''https://registry.npmjs.org/lodash/-/lodash-4.17.20.tgz''),
             (''integrity'', JString ''sha512-PlhdFcillOINfeV7Ni6oF1TAEayyZBoZ8bcshTHqOYJYlrqzRK5hagpagky5o4HfCzzd1TRkXPMFq6cKk9rGmA==''),
             (''license'', JString ''MIT'')])])]"

definition ex_lock_doc_updated :: json where
  "ex_lock_doc_updated = JObject
     [(''name'', JString ''test-project''),
      (''version'', JString ''1.0.0''),
      (''lockfileVersion'', JNumber ''3''),
      (''packages'', JObject
         [('''', JObject
            [(''dependencies'', JObject [(''lodash'', JString ''^4.17.20'')])]),
          (''node_modules/lodash'', JObject
            [(''version'', JString ''4.17.21''),
             (''resolved'', JString ''https://registry.npmjs.org/lodash/-/lodash-4.17.21.tgz''),
             (''integrity'', JString ''sha512-PlhdFcillOINfeV7Ni6oF1TAEayyZBoZ8bcshTHqOYJYlrqzRK5hagpagky5o4HfCzzd1TRkXPMFq6cKk9rGmA=='')])])]"

definition ex_lock_lib :: json_lib where
  "ex_lock_lib = json_double (render 0 ex_lock_doc) ex_lock_doc"

definition ex_lock_fs :: fs where
  "ex_lock_fs = fs_with ''package-lock.json'' (render 0 ex_lock_doc)"

definition ex_lodash :: PackageInfo where
  "ex_lodash = \<lparr>info_Name = ''lodash'', info_Version = ''4.17.20'', info_VersionConstraint = ''4.17.20'',
     info_Ecosystem = EcosystemNpm, info_Direct = True, info_Dev = False, info_Location = []\<rparr>"

lemma ex_lock_decoded:
  "decode_PackageLockJSON ex_lock_doc = Some
     \<lparr>l_Name = ''test-project'', l_Version = ''1.0.0'', l_LockfileVersion = 3,
      l_Packages = Some
        [([], \<lparr>e_Version = [], e_Resolved = [], e_Integrity = [], e_Dev = False,
               e_Dependencies = [(''lodash'', ''^4.17.20'')], e_DevDependencies = []\<rparr>),
         (''node_modules/lodash'',
          \<lparr>e_Version = ''4.17.20'',
           e_Resolved = ''https://registry.npmjs.org/lodash/-/lodash-4.17.20.tgz'',
           e_Integrity = ''sha512-PlhdFcillOINfeV7Ni6oF1TAEayyZBoZ8bcshTHqOYJYlrqzRK5hagpagky5o4HfCzzd1TRkXPMFq6cKk9rGmA=='',
           e_Dev = False, e_Dependencies = [], e_DevDependencies = []\<rparr>)],
      l_Dependencies = []\<rparr>"
  by (simp add: ex_lock_doc_def decode_PackageLockJSON_def dec_struct_def lockfile_field_def
      zero_lockfile_def dec_string_def dec_int_def parse_int_def digit_value_def dec_map_def
      decode_entry_def entry_field_def zero_entry_def dec_string_map_def packages_of_def to_lower_def)

lemma ex_lock_parsed:
  "npm_Parse ex_lock_lib ex_lock_fs ''package-lock.json'' = Inr [ex_lodash]"
  by (simp add: npm_Parse_def ex_lock_fs_def fs_with_def ReadFile_def unmarshal_lockfile_def
      ex_lock_lib_def json_double_def ex_lock_decoded parse_lockfile_def packages_of_def
      extractPackageName_def has_key_def ex_lodash_def Let_def suffix_to_prefix)

lemma ex_two_artifacts_parsed:
  "maven_Parse (xml_double ex_pom_two_artifacts ex_project_two_artifacts)
      (fs_with ''pom.xml'' ex_pom_two_artifacts) ''pom.xml'' = Inr [ex_hadoop False, ex_hadoop True]"
  by (simp add: maven_Parse_def ReadFile_def xml_double_def fs_with_def parse_project_def
      ex_project_two_artifacts_def ex_hadoop_def resolveProperty_def maven_name_def Let_def)

lemma ex_lock_updated:
  "npm_Update ex_lock_lib ex_lock_fs ''package-lock.json'' [(''lodash'', ''4.17.21'')] =
     Inr (render 0 ex_lock_doc_updated @ [CHR 0x0A])"
proof -
  have 3: "unmarshal_lockfile ex_lock_lib (render 0 ex_lock_doc) = Inr (the (decode_PackageLockJSON ex_lock_doc))"
    by (simp add: unmarshal_lockfile_def ex_lock_lib_def json_double_def ex_lock_decoded)
  have 4: "encode_PackageLockJSON (update_lockfile [(''lodash'', ''4.17.21'')] (the (decode_PackageLockJSON ex_lock_doc)))
      = ex_lock_doc_updated"
    by (simp add: ex_lock_decoded update_lockfile_def update_entry_def extractPackageName_def
        encode_PackageLockJSON_def encode_entry_def enc_map_def omitempty_def show_int_def
        show_nat.simps digit_char_def ex_lock_doc_updated_def Let_def)
  show ?thesis
    unfolding npm_Update_def
    by (simp add: ex_lock_fs_def fs_with_def ReadFile_def 3 4)
       (simp add: ex_lock_lib_def json_double_def)
qed

subsection \<open>Names, versions and repeated pairs\<close>

text \<open>
  Claim C3, as stated, fails for Maven: \<open>Parse\<close> of the POM parser has no step that
  removes repeated entries, and a POM that declares an artifact twice with one version
  (here the jar and, in test scope, its test jar) gives two entries of the same name and
  version.
\<close>

theorem maven_parse_repeats_pair:
  "maven_Parse (xml_double ex_pom_two_artifacts ex_project_two_artifacts)
      (fs_with ''pom.xml'' ex_pom_two_artifacts) ''pom.xml'' = Inr [ex_hadoop False, ex_hadoop True] \<and>
   \<not> distinct (map (\<lambda>p. (info_Name p, info_Version p)) [ex_hadoop False, ex_hadoop True])"
  by (simp add: ex_two_artifacts_parsed) (simp add: ex_hadoop_def)

text \<open>
  Claim C3, amended.  Every entry that \<open>Parse\<close> of the npm lock parser or of the Maven POM
  parser returns has a name and a version that are not empty; the entries of one result of
  the npm lock parser have pairwise different pairs of name and version.  (The Maven POM
  parser returns one entry for each declared dependency it keeps, in the order of the
  document.)
\<close>


theorem parse_names_versions_nonempty:
  "(npm_Parse J f path = Inr pkgs \<longrightarrow>
      (\<forall>p \<in> set pkgs. info_Name p \<noteq> [] \<and> info_Version p \<noteq> []) \<and>
      distinct (map (\<lambda>p. (info_Name p, info_Version p)) pkgs)) \<and>
   (maven_Parse X f' path' = Inr pkgs' \<longrightarrow>
      (\<forall>p \<in> set pkgs'. info_Name p \<noteq> [] \<and> info_Version p \<noteq> []))"
  by (auto simp: npm_Parse_def maven_Parse_def parse_project_def parse_lockfile_distinct
      dest: parse_lockfile_nonempty parse_dependencies_nonempty split: if_splits sum.splits)

theorem parse_names_versions_nonempty_witness:
  "npm_Parse ex_lock_lib ex_lock_fs ''package-lock.json'' = Inr [ex_lodash] \<and>
   info_Name ex_lodash \<noteq> [] \<and> info_Version ex_lodash \<noteq> [] \<and>
   maven_Parse (xml_double ex_pom_two_artifacts ex_project_two_artifacts)
      (fs_with ''pom.xml'' ex_pom_two_artifacts) ''pom.xml'' = Inr [ex_hadoop False, ex_hadoop True] \<and>
   info_Name (ex_hadoop True) \<noteq> [] \<and> info_Version (ex_hadoop True) \<noteq> []"
  using parse_names_versions_nonempty[of ex_lock_lib ex_lock_fs "''package-lock.json''" "[ex_lodash]"
      "xml_double ex_pom_two_artifacts ex_project_two_artifacts" "fs_with ''pom.xml'' ex_pom_two_artifacts"
      "''pom.xml''" "[ex_hadoop False, ex_hadoop True]"]
    ex_lock_parsed ex_two_artifacts_parsed
  by simp

subsection \<open>What \<open>Update\<close> of the npm parser changes\<close>

text \<open>\<open>member_at v ks\<close> is the value found in \<open>v\<close> by following the keys \<open>ks\<close>.\<close>


fun member_at :: "json \<Rightarrow> string list \<Rightarrow> json option" where
  "member_at v [] = Some v"
| "member_at v (k # ks) =
     (case v of
        JObject ms \<Rightarrow> (case map_of ms k of Some x \<Rightarrow> member_at x ks | None \<Rightarrow> None)
      | _ \<Rightarrow> None)"

text \<open>
  Claim C5, as stated, fails: \<open>Update\<close> decodes the lock file into the structs and encodes
  the structs again, so a member of a lock entry that the struct \<open>PackageLockEntry\<close> does
  not declare is not in the output.  Here the member \<open>license\<close> of the entry of lodash is
  lost (and so are the member \<open>name\<close> of the root entry and the member \<open>requires\<close> of the
  document).
\<close>

theorem npm_update_drops_undeclared_members:
  "member_at ex_lock_doc [''packages'', ''node_modules/lodash'', ''license''] = Some (JString ''MIT'') \<and>
   npm_Update ex_lock_lib ex_lock_fs ''package-lock.json'' [(''lodash'', ''4.17.21'')] =
     Inr (render 0 ex_lock_doc_updated @ [CHR 0x0A]) \<and>
   member_at ex_lock_doc_updated [''packages'', ''node_modules/lodash'', ''license''] = None"
  by (simp add: ex_lock_updated) (simp add: ex_lock_doc_def ex_lock_doc_updated_def)

text \<open>
  Claim C5, amended.  The output of \<open>Update\<close> is the serialisation, with indentation and a
  final newline, of the whole decoded structure after the update.  In that structure the
  fields of the lock file other than the packages are as decoded, the packages are the
  same paths in the same order, and of every lock entry the fields \<open>integrity\<close>, \<open>dev\<close>,
  \<open>dependencies\<close> and \<open>devDependencies\<close> are as decoded.  An entry whose path is not empty
  and whose extracted name is a key of the update map has the new version, and its
  resolved URL has the first occurrence of the old version replaced by the new one when
  both the URL and the old version are not empty; every other entry is as decoded.  What
  the structs do not declare is not carried over.
\<close>


definition entry_change :: "(string \<times> string) list \<Rightarrow> string \<times> PackageLockEntry \<Rightarrow> string \<times> PackageLockEntry \<Rightarrow> bool" where
  "entry_change updates before after =
     (case (before, after) of ((pkgPath, e), (pkgPath', e')) \<Rightarrow>
        pkgPath' = pkgPath \<and> e_Integrity e' = e_Integrity e \<and> e_Dev e' = e_Dev e \<and>
        e_Dependencies e' = e_Dependencies e \<and> e_DevDependencies e' = e_DevDependencies e \<and>
        (case (if pkgPath = [] then None else map_of updates (extractPackageName pkgPath)) of
           None \<Rightarrow> e' = e
         | Some newVersion \<Rightarrow>
             e_Version e' = newVersion \<and>
             e_Resolved e' =
               (if e_Resolved e \<noteq> [] \<and> e_Version e \<noteq> []
                then Replace_first (e_Resolved e) (e_Version e) newVersion
                else e_Resolved e)))"

lemma update_entry_change: "entry_change updates x (update_entry updates x)"
  by (cases x) (auto simp: entry_change_def update_entry_def Let_def split: option.splits)

lemma update_lockfile_change:
  "list_all2 (entry_change updates) (packages_of l) (packages_of (update_lockfile updates l))"
  by (cases "l_Packages l")
     (auto simp: packages_of_def update_lockfile_def list_all2_map2 update_entry_change
        intro: list_all2_refl)

theorem npm_update_changes_version_and_resolved:
  assumes "npm_Update J f path updates = Inr out"
  shows "\<exists>content lockfile lockfile' serialised.
     ReadFile path f = Inr content \<and> unmarshal_lockfile J content = Inr lockfile \<and>
     MarshalIndent J (encode_PackageLockJSON lockfile') = Inr serialised \<and>
     out = serialised @ [CHR 0x0A] \<and>
     l_Name lockfile' = l_Name lockfile \<and> l_Version lockfile' = l_Version lockfile \<and>
     l_LockfileVersion lockfile' = l_LockfileVersion lockfile \<and>
     l_Dependencies lockfile' = l_Dependencies lockfile \<and>
     (l_Packages lockfile' = None \<longleftrightarrow> l_Packages lockfile = None) \<and>
     list_all2 (entry_change updates) (packages_of lockfile) (packages_of lockfile')"
proof -
  from assms obtain content lockfile serialised where
    h: "ReadFile path f = Inr content" "unmarshal_lockfile J content = Inr lockfile"
       "MarshalIndent J (encode_PackageLockJSON (update_lockfile updates lockfile)) = Inr serialised"
       "out = serialised @ [CHR 0x0A]"
    by (auto simp: npm_Update_def split: sum.splits)
  show ?thesis
    using h update_lockfile_change[of updates lockfile]
    by (intro exI[of _ content] exI[of _ lockfile] exI[of _ "update_lockfile updates lockfile"]
          exI[of _ serialised])
       (simp add: update_lockfile_def)
qed

theorem npm_update_changes_version_and_resolved_witness:
  "\<exists>lockfile lockfile'.
     unmarshal_lockfile ex_lock_lib (render 0 ex_lock_doc) = Inr lockfile \<and>
     MarshalIndent ex_lock_lib (encode_PackageLockJSON lockfile') = Inr (render 0 ex_lock_doc_updated) \<and>
     l_Name lockfile' = l_Name lockfile \<and>
     list_all2 (entry_change [(''lodash'', ''4.17.21'')]) (packages_of lockfile) (packages_of lockfile')"
proof -
  have r: "ReadFile ''package-lock.json'' ex_lock_fs = Inr (render 0 ex_lock_doc)"
    by (simp add: ex_lock_fs_def fs_with_def ReadFile_def)
  from npm_update_changes_version_and_resolved[OF ex_lock_updated] r
  show ?thesis by auto
qed

subsection \<open>A version given by a property\<close>














subsection \<open>Test documents for the property\<close>

text \<open>
  The document of \<open>TestMavenParser_Update_PropertyVersion\<close> (without the XML declaration
  and the namespace attribute), with given lines for the properties and for the
  dependencies, and the decoded projects that a double of \<open>xml.Unmarshal\<close> gives for it.
\<close>

definition ex_pom :: "string list \<Rightarrow> string list \<Rightarrow> string" where
  "ex_pom properties dependencies = join newline
     ([''<project>'',
       ''    <properties>''] @ properties @
      [''    </properties>'',
       ''    <dependencies>''] @ dependencies @
      [''    </dependencies>'',
       ''</project>''])"

definition ex_dependency_lines :: "string \<Rightarrow> string list" where
  "ex_dependency_lines v =
     [''        <dependency>'',
      ''            <groupId>org.apache.logging.log4j</groupId>'',
      ''            <artifactId>log4j-core</artifactId>'',
      ''            <version>'' @ v @ ''</version>'',
      ''        </dependency>'']"

definition ex_pom_log4j :: "string \<Rightarrow> string" where
  "ex_pom_log4j v =
     ex_pom [''        <log4j.version>'' @ v @ ''</log4j.version>''] (ex_dependency_lines ''${log4j.version}'')"

definition ex_pom_comment :: "string \<Rightarrow> string \<Rightarrow> string" where
  "ex_pom_comment old v =
     ex_pom [''        <!-- <log4j.version>'' @ old @ ''</log4j.version> -->'',
             ''        <log4j.version>'' @ v @ ''</log4j.version>'']
       (ex_dependency_lines ''${log4j.version}'')"

definition ex_pom_cdata :: string where
  "ex_pom_cdata =
     ex_pom [''        <log4j.version><![CDATA[2.17.0]]></log4j.version>'']
       (ex_dependency_lines ''${log4j.version}'')"

definition ex_pom_two_versions :: "string \<Rightarrow> string \<Rightarrow> string" where
  "ex_pom_two_versions v literal =
     ex_pom [''        <log4j.version>'' @ v @ ''</log4j.version>'']
       (ex_dependency_lines ''${log4j.version}'' @ ex_dependency_lines literal)"

definition ex_log4j_core :: "string \<Rightarrow> Dependency" where
  "ex_log4j_core v = \<lparr>dep_GroupID = ''org.apache.logging.log4j'', dep_ArtifactID = ''log4j-core'',
     dep_Version = v, dep_Scope = []\<rparr>"

definition ex_project_log4j :: "Dependency list \<Rightarrow> Project" where
  "ex_project_log4j deps = \<lparr>p_GroupID = [], p_ArtifactID = [], p_Version = [],
     p_Properties = [(''log4j.version'', ''2.17.0'')], p_Dependencies = deps\<rparr>"

lemmas ex_pom_defs = ex_pom_def ex_dependency_lines_def ex_pom_log4j_def ex_pom_comment_def
  ex_pom_cdata_def ex_pom_two_versions_def newline_def

lemma ex_comment_updated:
  "maven_Update U (xml_double (ex_pom_comment ''2.16.0'' ''2.17.0'') (ex_project_log4j [ex_log4j_core ''${log4j.version}'']))
      (fs_with ''pom.xml'' (ex_pom_comment ''2.16.0'' ''2.17.0'')) ''pom.xml''
      [(''org.apache.logging.log4j:log4j-core'', ''2.17.1'')] = Inr (ex_pom_comment ''2.17.1'' ''2.17.1'')"
  by code_simp

lemma ex_cdata_updated:
  "maven_Update U (xml_double ex_pom_cdata (ex_project_log4j [ex_log4j_core ''${log4j.version}'']))
      (fs_with ''pom.xml'' ex_pom_cdata) ''pom.xml''
      [(''org.apache.logging.log4j:log4j-core'', ''2.17.1'')] = Inr ex_pom_cdata"
  by code_simp

lemma ex_cdata_no_new_version:
  "\<not> Contains ex_pom_cdata ''<log4j.version>2.17.1</log4j.version>''"
  by code_simp

lemma ex_two_versions_updated:
  "maven_Update U (xml_double (ex_pom_two_versions ''2.17.0'' ''2.16.0'')
        (ex_project_log4j [ex_log4j_core ''${log4j.version}'', ex_log4j_core ''2.16.0'']))
      (fs_with ''pom.xml'' (ex_pom_two_versions ''2.17.0'' ''2.16.0'')) ''pom.xml''
      [(''org.apache.logging.log4j:log4j-core'', ''2.17.1'')] = Inr (ex_pom_two_versions ''2.17.1'' ''2.17.1'')"
  by code_simp

definition ex_log4j_info :: "string \<Rightarrow> PackageInfo" where
  "ex_log4j_info v = \<lparr>info_Name = ''org.apache.logging.log4j:log4j-core'', info_Version = v,
     info_VersionConstraint = v, info_Ecosystem = EcosystemMaven, info_Direct = True,
     info_Dev = False, info_Location = []\<rparr>"

lemma ex_log4j_parsed:
  "maven_Parse (xml_double doc (ex_project_log4j [ex_log4j_core ''${log4j.version}''])) (fs_with ''pom.xml'' doc)
     ''pom.xml'' = Inr [ex_log4j_info ''2.17.0'']"
  "maven_Parse (xml_double doc (ex_project_log4j [ex_log4j_core ''${log4j.version}'', ex_log4j_core ''2.16.0'']))
     (fs_with ''pom.xml'' doc) ''pom.xml'' = Inr [ex_log4j_info ''2.17.0'', ex_log4j_info ''2.16.0'']"
  by (simp_all add: maven_Parse_def ReadFile_def fs_with_def xml_double_def parse_project_def
      ex_project_log4j_def ex_log4j_core_def ex_log4j_info_def resolveProperty_def maven_name_def
      TrimPrefix_def TrimSuffix_def suffix_to_prefix Let_def)

text \<open>
  Claim C7, as stated, fails: \<open>Update\<close> works on the text of the file with a regular
  expression, not on the property.  Each of the three documents has the property
  \<open>log4j.version\<close> with value \<open>2.17.0\<close> and a dependency whose version text is
  \<open>${log4j.version}\<close>, and \<open>Parse\<close> returns the dependency with version \<open>2.17.0\<close>.  In the
  first a comment quotes an older element of the property: \<open>Update\<close> rewrites the comment
  too.  In the second the value is written as a \<open>CDATA\<close> section: \<open>Update\<close> returns the text
  unchanged, and \<open><log4j.version>2.17.1</log4j.version>\<close> does not appear in it.  In the third
  the artifact is declared a second time with the version \<open>2.16.0\<close> written out: \<open>Update\<close>
  rewrites that version too.
\<close>

theorem maven_update_not_only_property_value:
  "\<forall>U.
     maven_Parse (xml_double (ex_pom_comment ''2.16.0'' ''2.17.0'') (ex_project_log4j [ex_log4j_core ''${log4j.version}'']))
       (fs_with ''pom.xml'' (ex_pom_comment ''2.16.0'' ''2.17.0'')) ''pom.xml'' = Inr [ex_log4j_info ''2.17.0''] \<and>
     maven_Update U (xml_double (ex_pom_comment ''2.16.0'' ''2.17.0'') (ex_project_log4j [ex_log4j_core ''${log4j.version}'']))
       (fs_with ''pom.xml'' (ex_pom_comment ''2.16.0'' ''2.17.0'')) ''pom.xml''
       [(''org.apache.logging.log4j:log4j-core'', ''2.17.1'')] = Inr (ex_pom_comment ''2.17.1'' ''2.17.1'') \<and>
     maven_Parse (xml_double ex_pom_cdata (ex_project_log4j [ex_log4j_core ''${log4j.version}'']))
       (fs_with ''pom.xml'' ex_pom_cdata) ''pom.xml'' = Inr [ex_log4j_info ''2.17.0''] \<and>
     maven_Update U (xml_double ex_pom_cdata (ex_project_log4j [ex_log4j_core ''${log4j.version}'']))
       (fs_with ''pom.xml'' ex_pom_cdata) ''pom.xml''
       [(''org.apache.logging.log4j:log4j-core'', ''2.17.1'')] = Inr ex_pom_cdata \<and>
     \<not> Contains ex_pom_cdata ''<log4j.version>2.17.1</log4j.version>'' \<and>
     maven_Parse (xml_double (ex_pom_two_versions ''2.17.0'' ''2.16.0'')
         (ex_project_log4j [ex_log4j_core ''${log4j.version}'', ex_log4j_core ''2.16.0'']))
       (fs_with ''pom.xml'' (ex_pom_two_versions ''2.17.0'' ''2.16.0'')) ''pom.xml'' =
       Inr [ex_log4j_info ''2.17.0'', ex_log4j_info ''2.16.0''] \<and>
     maven_Update U (xml_double (ex_pom_two_versions ''2.17.0'' ''2.16.0'')
         (ex_project_log4j [ex_log4j_core ''${log4j.version}'', ex_log4j_core ''2.16.0'']))
       (fs_with ''pom.xml'' (ex_pom_two_versions ''2.17.0'' ''2.16.0'')) ''pom.xml''
       [(''org.apache.logging.log4j:log4j-core'', ''2.17.1'')] = Inr (ex_pom_two_versions ''2.17.1'' ''2.17.1'')"
  by (intro allI conjI ex_log4j_parsed ex_comment_updated ex_cdata_updated ex_cdata_no_new_version
      ex_two_versions_updated)



section \<open>pkg/rootio: the API client\<close>

text \<open>
  \<open>AnalyzePackages\<close> of \<open>Client\<close>.  The parts of the standard library are parameters:
  \<open>json.Marshal\<close> of the request, the check of the URL by \<open>http.NewRequestWithContext\<close>,
  the exchange \<open>httpClient.Do\<close>, and the decoding of the response body.  \<open>SetBasicAuth\<close> is
  recorded as the pair of user name and password.  The list of packages is a slice that is
  not nil, as the three applications build it.
\<close>

record Client =
  c_baseURL :: string
  c_apiKey :: string

definition NewClient :: "string \<Rightarrow> string \<Rightarrow> Client" where
  "NewClient baseURL apiKey = \<lparr>c_baseURL = baseURL, c_apiKey = apiKey\<rparr>"

record http_request =
  req_method :: string
  req_url :: string
  req_content_type :: string
  req_basic_auth :: "string \<times> string"
  req_body :: string

record http_response =
  StatusCode :: nat
  Body :: string

record http_lib =
  Marshal :: "json \<Rightarrow> string + string"
  NewRequest :: "string \<Rightarrow> string \<Rightarrow> string option"
  Do :: "http_request \<Rightarrow> string + http_response"
  DecodeResponse :: "string \<Rightarrow> string + AnalyzePackagesResponse"

definition encode_Package :: "Package \<Rightarrow> json" where
  "encode_Package p = JObject [(''name'', JString (pkg_Name p)), (''version'', JString (pkg_Version p))]"

definition encode_AnalyzePackagesRequest :: "Package list \<Rightarrow> json" where
  "encode_AnalyzePackagesRequest packages = JObject [(''packages'', JArray (map encode_Package packages))]"

definition AnalyzePackages :: "http_lib \<Rightarrow> Client \<Rightarrow> Package list \<Rightarrow> string + AnalyzePackagesResponse" where
  "AnalyzePackages H c packages =
     (case Marshal H (encode_AnalyzePackagesRequest packages) of
        Inl err \<Rightarrow> Inl (''failed to marshal request: '' @ err)
      | Inr body \<Rightarrow>
          let url = c_baseURL c @ ''/v3/remediate/pypi''
          in (case NewRequest H ''POST'' url of
                Some err \<Rightarrow> Inl (''failed to create request: '' @ err)
              | None \<Rightarrow>
                  (case Do H \<lparr>req_method = ''POST'', req_url = url,
                              req_content_type = ''application/json'',
                              req_basic_auth = (c_apiKey c, []), req_body = body\<rparr> of
                     Inl err \<Rightarrow> Inl (''failed to execute request: '' @ err)
                   | Inr resp \<Rightarrow>
                       if StatusCode resp \<noteq> 200
                       then Inl (''API returned status '' @ show_nat (StatusCode resp) @ '': '' @ Body resp)
                       else
                         (case DecodeResponse H (Body resp) of
                            Inl err \<Rightarrow> Inl (''failed to decode response: '' @ err)
                          | Inr response \<Rightarrow> Inr response))))"

text \<open>\<open>NewApp\<close> of npm and of Maven: the parser of the ecosystem and a new client.\<close>

definition npm_NewApp :: "json_lib \<Rightarrow> http_lib \<Rightarrow> string \<Rightarrow> string \<Rightarrow> string \<Rightarrow> bool \<Rightarrow> npm_App" where
  "npm_NewApp J H apiKey apiURL packageManager dry =
     npm_NewAppWithServices apiKey apiURL packageManager dry (npm_NewParser J)
       (AnalyzePackages H (NewClient apiURL apiKey))"

definition maven_NewAppWithServices :: "string \<Rightarrow> string \<Rightarrow> string \<Rightarrow> bool \<Rightarrow> Parser \<Rightarrow> APIClient \<Rightarrow> maven_App" where
  "maven_NewAppWithServices apiKey apiURL filePath dry parser client =
     \<lparr>m_apiKey = apiKey, m_apiURL = apiURL, m_filePath = filePath, m_dryRun = dry,
      m_parser = parser, m_apiClient = client\<rparr>"

definition maven_NewApp :: "unicode_tables \<Rightarrow> xml_Unmarshal \<Rightarrow> http_lib \<Rightarrow> string \<Rightarrow> string \<Rightarrow> string \<Rightarrow> bool \<Rightarrow> maven_App" where
  "maven_NewApp U X H apiKey apiURL filePath dry =
     maven_NewAppWithServices apiKey apiURL filePath dry (maven_NewParser U X)
       (AnalyzePackages H (NewClient apiURL apiKey))"

text \<open>
  A transport that sends nothing and answers with the request line and the credentials it
  was given, as the error of the exchange.
\<close>

definition probe_http :: http_lib where
  "probe_http =
     \<lparr>Marshal = (\<lambda>v. Inr (render 0 v)),
      NewRequest = (\<lambda>method url. None),
      Do = (\<lambda>req. Inl (req_method req @ '' '' @ req_url req @ '' user='' @ fst (req_basic_auth req) @
                       '' password='' @ snd (req_basic_auth req))),
      DecodeResponse = (\<lambda>body. Inl ''no response'')\<rparr>"

text \<open>
  Claim C4 holds for pypi only.  The path of the request is the constant
  \<open>/v3/remediate/pypi\<close>: the clients of the npm and of the Maven application post their
  packages there too (with the method, the basic authentication and the body of the claim).
\<close>

theorem npm_and_maven_requests_go_to_pypi:
  "n_apiClient (npm_NewApp J probe_http ''key'' ''https://api.root.io'' ''npm'' False)
     [\<lparr>pkg_Name = ''lodash'', pkg_Version = ''4.17.20''\<rparr>] =
     Inl ''failed to execute request: POST https://api.root.io/v3/remediate/pypi user=key password='' \<and>
   m_apiClient (maven_NewApp U X probe_http ''key'' ''https://api.root.io'' ''pom.xml'' False)
     [\<lparr>pkg_Name = ''junit:junit'', pkg_Version = ''4.12''\<rparr>] =
     Inl ''failed to execute request: POST https://api.root.io/v3/remediate/pypi user=key password=''"
  by (simp add: npm_NewApp_def maven_NewApp_def npm_NewAppWithServices_def maven_NewAppWithServices_def
      is_path_def AnalyzePackages_def NewClient_def probe_http_def)

end
